theory Spec2Isabelle
  imports Complex_Main "HOL-Library.Multiset"
begin

section \<open>JavaScript values and built-ins used by src/api.js\<close>

text \<open>
  Numbers that the handlers compute with are integers, NaN or an infinity: every number
  of the program comes out of \<open>parseInt\<close>, \<open>Math.ceil\<close>, \<open>Math.round\<close> or integer
  arithmetic on those. They are modelled as mathematical integers, which is what an IEEE
  double holds exactly for magnitudes below \<open>2 ^ 53\<close>; the sign of zero is not modelled.
  Strings are lists of \<open>char\<close>, read as code units below 256.
\<close>

datatype jsnum = NaN | Num int | PosInf | NegInf

text \<open>A value held in a result row or in a bound-parameter list.\<close>

datatype jsval = JUndefined | JNull | JNumber jsnum | JStr string | JDate int

text \<open>White space and line terminators that \<open>parseInt\<close> and \<open>Number\<close> strip:
  TAB, LF, VT, FF, CR, SP and NBSP.\<close>

definition is_ws :: "char \<Rightarrow> bool" where
  "is_ws c = (of_char c \<in> {9, 10, 11, 12, 13, 32, 160 :: nat})"

definition digit_of :: "char \<Rightarrow> nat option" where
  "digit_of c =
     (let n = (of_char c :: nat) in
      if 48 \<le> n \<and> n \<le> 57 then Some (n - 48)
      else if 97 \<le> n \<and> n \<le> 122 then Some (n - 87)
      else if 65 \<le> n \<and> n \<le> 90 then Some (n - 55)
      else None)"

definition is_digit_in :: "nat \<Rightarrow> char \<Rightarrow> bool" where
  "is_digit_in R c = (case digit_of c of Some d \<Rightarrow> d < R | None \<Rightarrow> False)"

definition value_in :: "nat \<Rightarrow> string \<Rightarrow> nat" where
  "value_in R ds = foldl (\<lambda>acc c. acc * R + (case digit_of c of Some d \<Rightarrow> d | None \<Rightarrow> 0)) 0 ds"

definition has_hex_prefix :: "string \<Rightarrow> bool" where
  "has_hex_prefix s = (case s of c0 # c1 # _ \<Rightarrow> c0 = CHR ''0'' \<and> (c1 = CHR ''x'' \<or> c1 = CHR ''X'') | _ \<Rightarrow> False)"

text \<open>
  \<open>parseInt(string)\<close> with no radix argument (ECMAScript, parseInt): strip leading white
  space, take an optional sign, switch to radix 16 after \<open>0x\<close> or \<open>0X\<close>, read the longest
  prefix of digits of the radix, and return NaN when that prefix is empty. Whatever
  follows the digits is ignored.
\<close>

definition js_parseInt :: "string \<Rightarrow> jsnum" where
  "js_parseInt input =
     (let s = dropWhile is_ws input;
          neg = (case s of c # _ \<Rightarrow> c = CHR ''-'' | [] \<Rightarrow> False);
          s1 = (case s of c # r \<Rightarrow> if c = CHR ''+'' \<or> c = CHR ''-'' then r else s | [] \<Rightarrow> s);
          R = (if has_hex_prefix s1 then 16 else 10);
          s2 = (if has_hex_prefix s1 then drop 2 s1 else s1);
          z = takeWhile (is_digit_in R) s2
      in if z = [] then NaN
         else Num ((if neg then - 1 else 1) * int (value_in R z)))"

text \<open>A query-string value \<open>req.query.x\<close>: absent (\<open>undefined\<close>) or a string.
  \<open>parseInt(undefined)\<close> parses the string \<open>"undefined"\<close>.\<close>

definition parseInt_query :: "string option \<Rightarrow> jsnum" where
  "parseInt_query v = js_parseInt (case v of None \<Rightarrow> ''undefined'' | Some s \<Rightarrow> s)"

text \<open>\<open>parseInt(x) || d\<close>: NaN and zero are falsy, every other number is kept.\<close>

definition num_or :: "jsnum \<Rightarrow> int \<Rightarrow> int" where
  "num_or n d = (case n of Num k \<Rightarrow> if k = 0 then d else k | _ \<Rightarrow> d)"

text \<open>\<open>req.query.x || ''\<close>: an absent value and the empty string both give \<open>''\<close>.\<close>

definition str_or_empty :: "string option \<Rightarrow> string" where
  "str_or_empty v = (case v of None \<Rightarrow> [] | Some s \<Rightarrow> s)"

section \<open>Page and limit parsing\<close>

text \<open>
  \<open>const page = parseInt(req.query.page) || 1;\<close>
  \<open>const limit = parseInt(req.query.limit) || 20;\<close> (50 for messages, 10 for the search)
  \<open>const offset = (page - 1) * limit;\<close>
\<close>

definition page_of :: "string option \<Rightarrow> int" where
  "page_of p = num_or (parseInt_query p) 1"

definition limit_of :: "int \<Rightarrow> string option \<Rightarrow> int" where
  "limit_of dflt l = num_or (parseInt_query l) dflt"

definition offset_of :: "int \<Rightarrow> int \<Rightarrow> int" where
  "offset_of page limit = (page - 1) * limit"

section \<open>Rendering numbers into query text\<close>

text \<open>The decimal rendering that a template literal gives a non-negative integer,
  as in \<open>$${paramIndex}\<close>.\<close>

fun show_nat :: "nat \<Rightarrow> string" where
  "show_nat n =
     (if n < 10 then [''0123456789'' ! n]
      else show_nat (n div 10) @ [''0123456789'' ! (n mod 10)])"

declare show_nat.simps [simp del]

definition show_int :: "int \<Rightarrow> string" where
  "show_int i = (if i < 0 then CHR ''-'' # show_nat (nat (- i)) else show_nat (nat i))"

section \<open>The filter-predicate builders\<close>

text \<open>
  Each list handler keeps three variables while it builds its predicate:
  \<open>let whereClause = ''; let queryParams = []; let paramIndex = 1;\<close>
  and every active filter appends its condition, pushes its value and increments the
  index. The record is that triple; each \<open>let\<close> below is one \<open>if\<close> block of the source.
\<close>

record builder =
  whereClause :: string
  queryParams :: "jsval list"
  paramIndex :: nat

definition builder_init :: builder where
  "builder_init = \<lparr>whereClause = [], queryParams = [], paramIndex = 1\<rparr>"

text \<open>One \<open>if\<close> block: \<open>whereClause += text; queryParams.push(v); paramIndex++\<close>.\<close>

definition push_filter :: "string \<Rightarrow> jsval \<Rightarrow> builder \<Rightarrow> builder" where
  "push_filter text v b =
     \<lparr>whereClause = whereClause b @ text,
      queryParams = queryParams b @ [v],
      paramIndex = paramIndex b + 1\<rparr>"

text \<open>\<open>/api/users\<close>, lines 164-178: filters \<open>search\<close>, \<open>gender\<close>.\<close>

definition users_filters :: "string \<Rightarrow> string \<Rightarrow> builder" where
  "users_filters search gender =
     (let b0 = builder_init;
          b1 = (if search \<noteq> [] then
                  push_filter ('' WHERE username ILIKE $'' @ show_nat (paramIndex b0))
                    (JStr (''%'' @ search @ ''%'')) b0
                else b0);
          b2 = (if gender \<noteq> [] then
                  push_filter
                    (if search \<noteq> [] then '' AND gender = $'' @ show_nat (paramIndex b1)
                     else '' WHERE gender = $'' @ show_nat (paramIndex b1))
                    (JStr gender) b1
                else b1)
      in b2)"

text \<open>\<open>/api/conversations\<close>, lines 314-329: filters \<open>status\<close>, \<open>search\<close>.\<close>

definition conversations_filters :: "string \<Rightarrow> string \<Rightarrow> builder" where
  "conversations_filters status search =
     (let b0 = builder_init;
          b1 = (if status \<noteq> [] then
                  push_filter ('' WHERE status = $'' @ show_nat (paramIndex b0)) (JStr status) b0
                else b0);
          b2 = (if search \<noteq> [] then
                  (let searchCondition =
                     '' (user1_username ILIKE $'' @ show_nat (paramIndex b1)
                     @ '' OR user2_username ILIKE $'' @ show_nat (paramIndex b1) @ '')''
                   in push_filter
                        (if status \<noteq> [] then '' AND '' @ searchCondition
                         else '' WHERE '' @ searchCondition)
                        (JStr (''%'' @ search @ ''%'')) b1)
                else b1)
      in b2)"

text \<open>\<open>/api/messages\<close>, lines 444-480: filters \<open>conversation_id\<close>, \<open>user_id\<close>, \<open>search\<close>,
  \<open>date_from\<close>, \<open>date_to\<close>. The user id is pushed as \<open>parseInt(userId)\<close>.\<close>

definition messages_filters ::
  "string \<Rightarrow> string \<Rightarrow> string \<Rightarrow> string \<Rightarrow> string \<Rightarrow> builder" where
  "messages_filters conversationId userId search dateFrom dateTo =
     (let b0 = builder_init;
          b1 = (if conversationId \<noteq> [] then
                  push_filter ('' WHERE conversation_id = $'' @ show_nat (paramIndex b0))
                    (JStr conversationId) b0
                else b0);
          b2 = (if userId \<noteq> [] then
                  (let userCondition =
                     '' (sender_user_id = $'' @ show_nat (paramIndex b1)
                     @ '' OR receiver_user_id = $'' @ show_nat (paramIndex b1) @ '')''
                   in push_filter
                        (if conversationId \<noteq> [] then '' AND '' @ userCondition
                         else '' WHERE '' @ userCondition)
                        (JNumber (js_parseInt userId)) b1)
                else b1);
          b3 = (if search \<noteq> [] then
                  (let searchCondition = '' message ILIKE $'' @ show_nat (paramIndex b2)
                   in push_filter
                        (if conversationId \<noteq> [] \<or> userId \<noteq> [] then '' AND '' @ searchCondition
                         else '' WHERE '' @ searchCondition)
                        (JStr (''%'' @ search @ ''%'')) b2)
                else b2);
          b4 = (if dateFrom \<noteq> [] then
                  (let dateCondition = '' timestamp >= $'' @ show_nat (paramIndex b3)
                   in push_filter
                        (if conversationId \<noteq> [] \<or> userId \<noteq> [] \<or> search \<noteq> []
                         then '' AND '' @ dateCondition else '' WHERE '' @ dateCondition)
                        (JStr dateFrom) b3)
                else b3);
          b5 = (if dateTo \<noteq> [] then
                  (let dateCondition = '' timestamp <= $'' @ show_nat (paramIndex b4)
                   in push_filter
                        (if conversationId \<noteq> [] \<or> userId \<noteq> [] \<or> search \<noteq> [] \<or> dateFrom \<noteq> []
                         then '' AND '' @ dateCondition else '' WHERE '' @ dateCondition)
                        (JStr dateTo) b4)
                else b4)
      in b5)"

section \<open>Query texts of the list handlers\<close>

definition users_countQuery :: "string \<Rightarrow> string" where
  "users_countQuery clause =
     ''SELECT COUNT(*) as total FROM usernames''
     @ clause"

definition users_usersQuery :: "string \<Rightarrow> nat \<Rightarrow> string" where
  "users_usersQuery clause idx =
     ''\<newline>      SELECT \<newline>        user_id,\<newline>        username,\<newline>        gender\<newline>      FROM usernames\<newline>      ''
     @ clause
     @ ''\<newline>      ORDER BY user_id DESC\<newline>      LIMIT $''
     @ show_nat idx
     @ '' OFFSET $''
     @ show_nat (idx + 1)
     @ ''\<newline>    ''"

definition conversations_countQuery :: "string \<Rightarrow> string" where
  "conversations_countQuery clause =
     ''SELECT COUNT(*) as total FROM conversations''
     @ clause"

definition conversations_conversationsQuery :: "string \<Rightarrow> nat \<Rightarrow> string" where
  "conversations_conversationsQuery clause idx =
     ''\<newline>      SELECT \<newline>        id,\<newline>        user1_id,\<newline>        user1_username,\<newline>        user2_id,\<newline>        user2_username,\<newline>        started_at,\<newline>        ended_at,\<newline>        status,\<newline>        (SELECT COUNT(*) FROM chat_logs WHERE conversation_id = conversations.id) as message_count\<newline>      FROM conversations\<newline>      ''
     @ clause
     @ ''\<newline>      ORDER BY started_at DESC\<newline>      LIMIT $''
     @ show_nat idx
     @ '' OFFSET $''
     @ show_nat (idx + 1)
     @ ''\<newline>    ''"

definition messages_countQuery :: "string \<Rightarrow> string" where
  "messages_countQuery clause =
     ''SELECT COUNT(*) as total FROM chat_logs''
     @ clause"

definition messages_messagesQuery :: "string \<Rightarrow> nat \<Rightarrow> string" where
  "messages_messagesQuery clause idx =
     ''\<newline>      SELECT \<newline>        conversation_id,\<newline>        sender_user_id,\<newline>        sender_username,\<newline>        receiver_user_id,\<newline>        receiver_username,\<newline>        message,\<newline>        timestamp\<newline>      FROM chat_logs\<newline>      ''
     @ clause
     @ ''\<newline>      ORDER BY timestamp DESC\<newline>      LIMIT $''
     @ show_nat idx
     @ '' OFFSET $''
     @ show_nat (idx + 1)
     @ ''\<newline>    ''"

text \<open>\<open>queryParams.slice(0, -2)\<close>: everything but the last two entries.\<close>

definition slice_0_minus2 :: "'a list \<Rightarrow> 'a list" where
  "slice_0_minus2 xs = take (length xs - 2) xs"

text \<open>The two queries a list handler sends, with their parameter lists:
  \<open>queryParams.push(limit, offset)\<close>, then the count query gets
  \<open>queryParams.slice(0, -2)\<close> and the page query gets \<open>queryParams\<close>.\<close>

record paged_queries =
  countQuery :: string
  countParams :: "jsval list"
  pageQuery :: string
  pageParams :: "jsval list"

definition paged ::
  "(string \<Rightarrow> string) \<Rightarrow> (string \<Rightarrow> nat \<Rightarrow> string) \<Rightarrow> builder \<Rightarrow> int \<Rightarrow> int \<Rightarrow> paged_queries" where
  "paged countQ pageQ b limit offset =
     (let pushed = queryParams b @ [JNumber (Num limit), JNumber (Num offset)] in
      \<lparr>countQuery = countQ (whereClause b),
       countParams = slice_0_minus2 pushed,
       pageQuery = pageQ (whereClause b) (paramIndex b),
       pageParams = pushed\<rparr>)"

definition users_queries :: "string \<Rightarrow> string \<Rightarrow> int \<Rightarrow> int \<Rightarrow> paged_queries" where
  "users_queries search gender limit offset =
     paged users_countQuery users_usersQuery (users_filters search gender) limit offset"

definition conversations_queries :: "string \<Rightarrow> string \<Rightarrow> int \<Rightarrow> int \<Rightarrow> paged_queries" where
  "conversations_queries status search limit offset =
     paged conversations_countQuery conversations_conversationsQuery
       (conversations_filters status search) limit offset"

definition messages_queries ::
  "string \<Rightarrow> string \<Rightarrow> string \<Rightarrow> string \<Rightarrow> string \<Rightarrow> int \<Rightarrow> int \<Rightarrow> paged_queries" where
  "messages_queries conversationId userId search dateFrom dateTo limit offset =
     paged messages_countQuery messages_messagesQuery
       (messages_filters conversationId userId search dateFrom dateTo) limit offset"

section \<open>What a well-formed predicate is\<close>










section \<open>Number coercion of strings\<close>

text \<open>
  \<open>isNaN(s)\<close> on a string coerces it with \<open>Number(s)\<close> (ECMAScript, StringToNumber):
  white space is stripped on both sides; the empty string is 0; \<open>0x\<close>, \<open>0o\<close> and \<open>0b\<close>
  introduce an unsigned integer in radix 16, 8 and 2; otherwise the whole rest must be a
  decimal literal: an optional sign, then \<open>Infinity\<close> or digits with an optional
  fraction and an optional exponent. Anything else is NaN. Values are exact rationals.
\<close>

datatype number = NotANumber | Finite rat | Infinite bool

definition strip_ws :: "string \<Rightarrow> string" where
  "strip_ws s = rev (dropWhile is_ws (rev (dropWhile is_ws s)))"

definition pow10 :: "int \<Rightarrow> rat" where
  "pow10 e = (if 0 \<le> e then 10 ^ nat e else 1 / 10 ^ nat (- e))"

text \<open>The exponent after the digits: nothing, or \<open>e\<close>/\<open>E\<close>, an optional sign and at
  least one digit. \<open>None\<close> when the rest is neither.\<close>

definition exponent_part :: "string \<Rightarrow> int option" where
  "exponent_part r =
     (case r of
        [] \<Rightarrow> Some 0
      | c # r1 \<Rightarrow>
          if c = CHR ''e'' \<or> c = CHR ''E'' then
            (let neg = (case r1 of c1 # _ \<Rightarrow> c1 = CHR ''-'' | [] \<Rightarrow> False);
                 r2 = (case r1 of c1 # r' \<Rightarrow> if c1 = CHR ''+'' \<or> c1 = CHR ''-'' then r' else r1
                       | [] \<Rightarrow> r1)
             in if r2 \<noteq> [] \<and> list_all (is_digit_in 10) r2
                then Some ((if neg then - 1 else 1) * int (value_in 10 r2))
                else None)
          else None)"

definition unsigned_decimal :: "string \<Rightarrow> number" where
  "unsigned_decimal u =
     (if u = ''Infinity'' then Infinite True
      else
        (let ip = takeWhile (is_digit_in 10) u; r1 = dropWhile (is_digit_in 10) u in
         case r1 of
           c # r1' \<Rightarrow>
             if c = CHR ''.'' then
               (let fp = takeWhile (is_digit_in 10) r1'; r2 = dropWhile (is_digit_in 10) r1' in
                if ip = [] \<and> fp = [] then NotANumber
                else (case exponent_part r2 of
                        None \<Rightarrow> NotANumber
                      | Some e \<Rightarrow>
                          Finite ((of_nat (value_in 10 ip)
                                   + of_nat (value_in 10 fp) / 10 ^ length fp) * pow10 e)))
             else if ip = [] then NotANumber
             else (case exponent_part r1 of
                     None \<Rightarrow> NotANumber
                   | Some e \<Rightarrow> Finite (of_nat (value_in 10 ip) * pow10 e))
         | [] \<Rightarrow> if ip = [] then NotANumber else Finite (of_nat (value_in 10 ip))))"

definition negate :: "number \<Rightarrow> number" where
  "negate x = (case x of NotANumber \<Rightarrow> NotANumber | Finite r \<Rightarrow> Finite (- r)
               | Infinite b \<Rightarrow> Infinite (\<not> b))"

definition radix_of_prefix :: "string \<Rightarrow> nat option" where
  "radix_of_prefix t =
     (case t of
        c0 # c1 # _ \<Rightarrow>
          if c0 \<noteq> CHR ''0'' then None
          else if c1 = CHR ''x'' \<or> c1 = CHR ''X'' then Some 16
          else if c1 = CHR ''o'' \<or> c1 = CHR ''O'' then Some 8
          else if c1 = CHR ''b'' \<or> c1 = CHR ''B'' then Some 2
          else None
      | _ \<Rightarrow> None)"

definition js_toNumber :: "string \<Rightarrow> number" where
  "js_toNumber s =
     (let t = strip_ws s in
      case t of
        [] \<Rightarrow> Finite 0
      | c # r \<Rightarrow>
          (case radix_of_prefix t of
             Some R \<Rightarrow>
               (let ds = drop 2 t in
                if ds \<noteq> [] \<and> list_all (is_digit_in R) ds then Finite (of_nat (value_in R ds))
                else NotANumber)
           | None \<Rightarrow>
               if c = CHR ''+'' then unsigned_decimal r
               else if c = CHR ''-'' then negate (unsigned_decimal r)
               else unsigned_decimal t))"

definition js_isNaN :: "string \<Rightarrow> bool" where
  "js_isNaN s = (js_toNumber s = NotANumber)"

section \<open>Rows, truthiness and coercions of row values\<close>

text \<open>A result row is an object keyed by column name; a column it lacks reads as
  \<open>undefined\<close>.\<close>

type_synonym row = "(string \<times> jsval) list"

definition field :: "row \<Rightarrow> string \<Rightarrow> jsval" where
  "field r k = (case map_of r k of Some v \<Rightarrow> v | None \<Rightarrow> JUndefined)"

definition truthy :: "jsval \<Rightarrow> bool" where
  "truthy v =
     (case v of
        JUndefined \<Rightarrow> False
      | JNull \<Rightarrow> False
      | JNumber n \<Rightarrow> (case n of NaN \<Rightarrow> False | Num k \<Rightarrow> k \<noteq> 0 | _ \<Rightarrow> True)
      | JStr s \<Rightarrow> s \<noteq> []
      | JDate _ \<Rightarrow> True)"

text \<open>\<open>v || 0\<close>.\<close>

definition or_zero :: "jsval \<Rightarrow> jsval" where
  "or_zero v = (if truthy v then v else JNumber (Num 0))"

text \<open>
  \<open>parseInt(v)\<close> on a row value parses \<open>String(v)\<close>: a string is parsed as it is, an
  integer gives itself (its decimal rendering read back), and \<open>"undefined"\<close>, \<open>"null"\<close>,
  \<open>"NaN"\<close>, \<open>"Infinity"\<close> and the rendering of a Date, which starts with a letter, have
  no leading digits.
\<close>

definition parseInt_val :: "jsval \<Rightarrow> jsnum" where
  "parseInt_val v =
     (case v of
        JStr s \<Rightarrow> js_parseInt s
      | JNumber n \<Rightarrow> (case n of Num k \<Rightarrow> Num k | _ \<Rightarrow> NaN)
      | _ \<Rightarrow> NaN)"

text \<open>\<open>Math.round(v)\<close>: \<open>Number(v)\<close> rounded to the nearest integer, halves upwards.\<close>

definition round_number :: "number \<Rightarrow> jsnum" where
  "round_number x =
     (case x of NotANumber \<Rightarrow> NaN | Finite r \<Rightarrow> Num \<lfloor>r + 1 / 2\<rfloor>
      | Infinite b \<Rightarrow> if b then PosInf else NegInf)"

definition math_round :: "jsval \<Rightarrow> jsnum" where
  "math_round v =
     (case v of
        JUndefined \<Rightarrow> NaN
      | JNull \<Rightarrow> Num 0
      | JNumber n \<Rightarrow> n
      | JStr s \<Rightarrow> round_number (js_toNumber s)
      | JDate t \<Rightarrow> Num t)"

section \<open>The pagination summary\<close>

text \<open>
  \<open>const totalPages = Math.ceil(totalUsers / limit);\<close>
  The quotient need not be an integer, so the division and the rounding are one
  function. The total is a result of \<open>parseInt\<close>.
\<close>

definition ceil_div :: "jsnum \<Rightarrow> int \<Rightarrow> jsnum" where
  "ceil_div totalCount limit =
     (case totalCount of
        NaN \<Rightarrow> NaN
      | Num t \<Rightarrow>
          if limit = 0 then (if t = 0 then NaN else if 0 < t then PosInf else NegInf)
          else Num \<lceil>real_of_int t / real_of_int limit\<rceil>
      | PosInf \<Rightarrow> if 0 \<le> limit then PosInf else NegInf
      | NegInf \<Rightarrow> if 0 \<le> limit then NegInf else PosInf)"

text \<open>\<open>page < totalPages\<close>: false against NaN.\<close>

definition less_num :: "int \<Rightarrow> jsnum \<Rightarrow> bool" where
  "less_num a n = (case n of NaN \<Rightarrow> False | Num k \<Rightarrow> a < k | PosInf \<Rightarrow> True | NegInf \<Rightarrow> False)"

record pagination =
  currentPage :: int
  totalPages :: jsnum
  totalItems :: jsnum
  hasNext :: bool
  hasPrev :: bool

definition pagination_of :: "int \<Rightarrow> int \<Rightarrow> jsnum \<Rightarrow> pagination" where
  "pagination_of page limit totalCount =
     (let tp = ceil_div totalCount limit in
      \<lparr>currentPage = page, totalPages = tp, totalItems = totalCount,
       hasNext = less_num page tp, hasPrev = (1 < page)\<rparr>)"

text \<open>
  What the database answers to \<open>LIMIT l OFFSET o\<close> over the ordered rows that match
  (PostgreSQL): it rejects a negative limit or offset, and otherwise skips \<open>o\<close> rows and
  returns at most \<open>l\<close>.
\<close>

definition limit_offset :: "'a list \<Rightarrow> int \<Rightarrow> int \<Rightarrow> 'a list option" where
  "limit_offset matching l off =
     (if l < 0 \<or> off < 0 then None else Some (take (nat l) (drop (nat off) matching)))"

section \<open>Identifier resolution of the single-user lookup\<close>

text \<open>
  Lines 227-237:
  \<open>const isUserId = !isNaN(identifier);\<close> then either the id query with
  \<open>parseInt(identifier)\<close> or the username query with
  \<open>identifier.startsWith('@') ? identifier : '@' + identifier\<close>.
\<close>

definition userDetails_userQuery_by_id :: string where
  "userDetails_userQuery_by_id = ''SELECT * FROM usernames WHERE user_id = $1''"

definition userDetails_userQuery_by_name :: string where
  "userDetails_userQuery_by_name = ''SELECT * FROM usernames WHERE username = $1''"

definition starts_with_at :: "string \<Rightarrow> bool" where
  "starts_with_at s = (case s of c # _ \<Rightarrow> c = CHR ''@'' | [] \<Rightarrow> False)"

record user_lookup =
  userQuery :: string
  queryParam :: jsval

definition resolve_identifier :: "string \<Rightarrow> user_lookup" where
  "resolve_identifier identifier =
     (let isUserId = \<not> js_isNaN identifier in
      if isUserId then
        \<lparr>userQuery = userDetails_userQuery_by_id,
         queryParam = JNumber (js_parseInt identifier)\<rparr>
      else
        \<lparr>userQuery = userDetails_userQuery_by_name,
         queryParam = JStr (if starts_with_at identifier then identifier
                            else ''@'' @ identifier)\<rparr>)"

section \<open>The recent-activity merge\<close>

text \<open>
  Lines 668-670:
  \<open>[...conversations.rows, ...messages.rows]\<close>
  \<open>  .sort((a, b) => new Date(b.timestamp) - new Date(a.timestamp)).slice(0, limit)\<close>

  The time value of \<open>new Date(v)\<close>: that of a Date (what the driver returns for a
  timestamp column), the number itself within the range of time values, 0 for \<open>null\<close>,
  and NaN (\<open>None\<close>) for \<open>undefined\<close>, NaN and the infinities. Parsing of date strings
  is not modelled: a string reads as NaN.
\<close>

definition time_value :: "jsval \<Rightarrow> int option" where
  "time_value v =
     (case v of
        JDate t \<Rightarrow> Some t
      | JNumber n \<Rightarrow>
          (case n of Num k \<Rightarrow> if \<bar>k\<bar> \<le> 8640000000000000 then Some k else None
           | _ \<Rightarrow> None)
      | JNull \<Rightarrow> Some 0
      | _ \<Rightarrow> None)"

text \<open>The comparator; \<open>sort\<close> reads a NaN result as 0.\<close>

definition compare_timestamps :: "row \<Rightarrow> row \<Rightarrow> int" where
  "compare_timestamps a b =
     (case (time_value (field b ''timestamp''), time_value (field a ''timestamp'')) of
        (Some tb, Some ta) \<Rightarrow> tb - ta
      | _ \<Rightarrow> 0)"

text \<open>
  \<open>Array.prototype.sort\<close> is stable; under a consistent comparator every stable sort
  gives the same list, so it is modelled by stable insertion: an element goes before
  the first one it does not compare greater than.
\<close>

fun insert_by :: "('a \<Rightarrow> 'a \<Rightarrow> int) \<Rightarrow> 'a \<Rightarrow> 'a list \<Rightarrow> 'a list" where
  "insert_by cmp x [] = [x]"
| "insert_by cmp x (y # ys) = (if cmp x y \<le> 0 then x # y # ys else y # insert_by cmp x ys)"

definition js_sort :: "('a \<Rightarrow> 'a \<Rightarrow> int) \<Rightarrow> 'a list \<Rightarrow> 'a list" where
  "js_sort cmp xs = foldr (insert_by cmp) xs []"

text \<open>\<open>xs.slice(0, n)\<close>: a negative end counts from the end of the array.\<close>

definition slice_0 :: "'a list \<Rightarrow> int \<Rightarrow> 'a list" where
  "slice_0 xs n = (if 0 \<le> n then take (nat n) xs else take (length xs - nat (- n)) xs)"

definition activity_merge :: "row list \<Rightarrow> row list \<Rightarrow> int \<Rightarrow> row list" where
  "activity_merge conversations messages limit =
     slice_0 (js_sort compare_timestamps (conversations @ messages)) limit"

text \<open>The timestamp of a row whose timestamp is a valid time value.\<close>

definition ts :: "row \<Rightarrow> int" where
  "ts r = (case time_value (field r ''timestamp'') of Some t \<Rightarrow> t | None \<Rightarrow> 0)"

definition dated :: "row \<Rightarrow> bool" where
  "dated r = (time_value (field r ''timestamp'') \<noteq> None)"

section \<open>The database client, requests and responses\<close>

text \<open>
  A thrown value: a rejection of the database client with its message, or the
  \<open>TypeError\<close> of reading a property of \<open>undefined\<close> (\<open>rows[0].total\<close> on an empty
  result).
\<close>

datatype js_error = DbError string | TypeError string

definition error_message :: "js_error \<Rightarrow> string" where
  "error_message e = (case e of DbError m \<Rightarrow> m | TypeError m \<Rightarrow> m)"

definition undefined_read :: "string \<Rightarrow> js_error" where
  "undefined_read k =
     TypeError (''Cannot read properties of undefined (reading '' @ [CHR 0x27] @ k
                @ [CHR 0x27] @ '')'')"

text \<open>
  \<open>client.query(text, params)\<close> resolves to rows or rejects with a message. The
  database is any function of the number of queries already sent on the connection, the
  query text and the parameters, so it may answer the same query differently the second
  time. \<open>client.connect()\<close> may reject as well.
\<close>

type_synonym query_result = "string + row list"

type_synonym database = "nat \<Rightarrow> string \<Rightarrow> jsval list \<Rightarrow> query_result"

record world =
  connect_error :: "string option"
  db :: database

text \<open>
  What a handler does to its connection, in order: \<open>Connect\<close> is
  \<open>createDBConnection()\<close> with \<open>await client.connect()\<close>, \<open>Query\<close> is one
  \<open>client.query\<close> with its text, its parameters and what the database answered, and
  \<open>End\<close> is \<open>await client.end()\<close>.
\<close>

datatype event = Connect | Query string "jsval list" query_result | End

definition is_query :: "event \<Rightarrow> bool" where
  "is_query ev = (case ev of Query _ _ _ \<Rightarrow> True | _ \<Rightarrow> False)"

text \<open>The request: the route parameter (every route has at most one) and the query
  string, each key absent or bound to one string. Repeated and bracketed keys, which
  the framework parses into arrays and objects, are outside the model.\<close>

record request =
  req_param :: string
  req_query :: "string \<Rightarrow> string option"

datatype json =
    Obj "(string \<times> json) list"
  | Rows "row list"
  | RowObj row
  | NumV jsnum
  | BoolV bool
  | StrV string

record response =
  status :: nat
  body :: json

text \<open>\<open>res.json(x)\<close> answers 200; \<open>res.status(n).json(x)\<close> answers n.\<close>

definition ok :: "json \<Rightarrow> response" where
  "ok j = \<lparr>status = 200, body = j\<rparr>"

definition not_found :: "string \<Rightarrow> response" where
  "not_found msg = \<lparr>status = 404, body = Obj [(''error'', StrV msg)]\<rparr>"

text \<open>Lines 34-41, \<open>handleError\<close>.\<close>

definition handleError :: "js_error \<Rightarrow> string \<Rightarrow> response" where
  "handleError error context =
     \<lparr>status = 500,
      body = Obj [(''error'', StrV ''Internal server error''),
                  (''message'', StrV (error_message error)),
                  (''context'', StrV context)]\<rparr>"

section \<open>Asynchronous steps as state passing\<close>

text \<open>
  A step of a handler takes the events so far and returns a value or a thrown error
  together with the events extended. \<open>bind\<close> is \<open>await\<close> followed by the rest of the
  block, \<open>try_catch\<close> is \<open>try { ... } catch (error) { ... }\<close>, and \<open>both\<close> is
  \<open>Promise.all\<close> of two queries: the client queues both, sends them in order, and the
  first rejection is the one thrown.
\<close>

type_synonym 'a io = "event list \<Rightarrow> (js_error + 'a) \<times> event list"

definition ret :: "'a \<Rightarrow> 'a io" where
  "ret x = (\<lambda>tr. (Inr x, tr))"

definition throw :: "js_error \<Rightarrow> 'a io" where
  "throw e = (\<lambda>tr. (Inl e, tr))"

definition bind :: "'a io \<Rightarrow> ('a \<Rightarrow> 'b io) \<Rightarrow> 'b io" where
  "bind m f = (\<lambda>tr. case m tr of (Inl e, tr1) \<Rightarrow> (Inl e, tr1) | (Inr a, tr1) \<Rightarrow> f a tr1)"

definition try_catch :: "'a io \<Rightarrow> (js_error \<Rightarrow> 'a io) \<Rightarrow> 'a io" where
  "try_catch m h = (\<lambda>tr. case m tr of (Inl e, tr1) \<Rightarrow> h e tr1 | (Inr a, tr1) \<Rightarrow> (Inr a, tr1))"

definition both :: "'a io \<Rightarrow> 'b io \<Rightarrow> ('a \<times> 'b) io" where
  "both m1 m2 =
     (\<lambda>tr. case m1 tr of
              (r1, tr1) \<Rightarrow>
                (case m2 tr1 of
                   (r2, tr2) \<Rightarrow>
                     ((case r1 of
                         Inl e \<Rightarrow> Inl e
                       | Inr a \<Rightarrow> (case r2 of Inl e \<Rightarrow> Inl e | Inr b \<Rightarrow> Inr (a, b))),
                      tr2)))"

definition client_query :: "database \<Rightarrow> string \<Rightarrow> jsval list \<Rightarrow> (row list) io" where
  "client_query d text params =
     (\<lambda>tr. let r = d (length (filter is_query tr)) text params in
            ((case r of Inl m \<Rightarrow> Inl (DbError m) | Inr rows \<Rightarrow> Inr rows),
             tr @ [Query text params r]))"

text \<open>\<open>rows[0]\<close>, \<open>obj.k\<close> (a \<open>TypeError\<close> when \<open>obj\<close> is \<open>undefined\<close>) and \<open>obj?.k\<close>.\<close>

definition first_row :: "row list \<Rightarrow> row option" where
  "first_row rows = (case rows of [] \<Rightarrow> None | r # _ \<Rightarrow> Some r)"

definition read :: "row option \<Rightarrow> string \<Rightarrow> jsval io" where
  "read obj k = (case obj of None \<Rightarrow> throw (undefined_read k) | Some r \<Rightarrow> ret (field r k))"

definition read_opt :: "row option \<Rightarrow> string \<Rightarrow> jsval" where
  "read_opt obj k = (case obj of None \<Rightarrow> JUndefined | Some r \<Rightarrow> field r k)"

text \<open>
  The frame every handler has:
  \<open>const client = createDBConnection();\<close>
  \<open>try { await client.connect(); ... } catch (error) { handleError(res, error, context); }\<close>
  \<open>finally { await client.end(); }\<close>
\<close>

definition with_client :: "world \<Rightarrow> string \<Rightarrow> (database \<Rightarrow> response io) \<Rightarrow> response \<times> event list" where
  "with_client w context handler_body =
     (case (case connect_error w of
              Some m \<Rightarrow> (Inl (DbError m), [Connect])
            | None \<Rightarrow> handler_body (db w) [Connect]) of
        (r, tr) \<Rightarrow>
          ((case r of Inl error \<Rightarrow> handleError error context | Inr res \<Rightarrow> res),
           tr @ [End]))"

definition pagination_json :: "string \<Rightarrow> pagination \<Rightarrow> json" where
  "pagination_json total_key p =
     Obj [(''currentPage'', NumV (Num (currentPage p))),
          (''totalPages'', NumV (totalPages p)),
          (total_key, NumV (totalItems p)),
          (''hasNext'', BoolV (hasNext p)),
          (''hasPrev'', BoolV (hasPrev p))]"

text \<open>The body of a list answer: the rows under their key, and the summary.\<close>

definition list_body :: "string \<Rightarrow> string \<Rightarrow> row list \<Rightarrow> pagination \<Rightarrow> json" where
  "list_body rows_key total_key rows p =
     Obj [(rows_key, Rows rows), (''pagination'', pagination_json total_key p)]"

section \<open>GET /api/dashboard/stats\<close>

definition dashboard_userCountQuery :: "string" where
  "dashboard_userCountQuery =
     ''SELECT COUNT(*) as total_users FROM usernames''"

definition dashboard_conversationStatsQuery :: "string" where
  "dashboard_conversationStatsQuery =
     ''\<newline>      SELECT \<newline>        total_conversations,\<newline>        active_conversations,\<newline>        ended_conversations,\<newline>        avg_messages_per_conversation,\<newline>        conversations_today\<newline>      FROM conversation_stats\<newline>      LIMIT 1\<newline>    ''"

definition dashboard_conversationStatsFallbackQuery :: "string" where
  "dashboard_conversationStatsFallbackQuery =
     ''\<newline>      SELECT \<newline>        COUNT(*) as total_conversations,\<newline>        COUNT(CASE WHEN status = 'active' THEN 1 END) as active_conversations,\<newline>        COUNT(CASE WHEN status = 'ended' THEN 1 END) as ended_conversations,\<newline>        AVG(message_count) as avg_messages_per_conversation,\<newline>        COUNT(CASE WHEN DATE(started_at AT TIME ZONE 'Asia/Jakarta') = CURRENT_DATE THEN 1 END) as conversations_today\<newline>      FROM conversations\<newline>    ''"

definition dashboard_messageStatsQuery :: "string" where
  "dashboard_messageStatsQuery =
     ''\<newline>      SELECT \<newline>        COUNT(*) as total_messages,\<newline>        COUNT(DISTINCT sender_user_id) as unique_senders\<newline>      FROM chat_logs \<newline>    ''"

definition dashboard_genderStatsQuery :: "string" where
  "dashboard_genderStatsQuery =
     ''\<newline>      SELECT \<newline>        gender, \<newline>        COUNT(*) as count \<newline>      FROM usernames \<newline>      GROUP BY gender\<newline>    ''"

definition dashboard_dailyMessagesQuery :: "string" where
  "dashboard_dailyMessagesQuery =
     ''\<newline>      SELECT \<newline>        DATE(timestamp AT TIME ZONE 'Asia/Jakarta') as message_date,\<newline>        COUNT(*) as daily_messages\<newline>      FROM chat_logs \<newline>      WHERE timestamp >= NOW() - INTERVAL '7 days'\<newline>      GROUP BY DATE(timestamp AT TIME ZONE 'Asia/Jakarta')\<newline>      ORDER BY message_date DESC\<newline>      LIMIT 7\<newline>    ''"

text \<open>Lines 109-123: the summary read with its fallback.\<close>

definition dashboard_conversationStats :: "database \<Rightarrow> (row option) io" where
  "dashboard_conversationStats d =
     try_catch
       (bind (client_query d dashboard_conversationStatsQuery [])
          (\<lambda>statsResult.
             if 0 < length statsResult then ret (first_row statsResult)
             else bind (client_query d dashboard_conversationStatsFallbackQuery [])
                    (\<lambda>fallbackResult. ret (first_row fallbackResult))))
       (\<lambda>error.
          bind (client_query d dashboard_conversationStatsFallbackQuery [])
            (\<lambda>fallbackResult. ret (first_row fallbackResult)))"

text \<open>Lines 125-142: the response.\<close>

definition dashboard_json :: "jsval \<Rightarrow> row list \<Rightarrow> row \<Rightarrow> row list \<Rightarrow> row list \<Rightarrow> json" where
  "dashboard_json total_users genderStats conversationStats messageStats dailyMessages =
     Obj [(''users'',
           Obj [(''total'', NumV (parseInt_val total_users)),
                (''byGender'', Rows genderStats)]),
          (''conversations'',
           Obj [(''total'',
                 NumV (parseInt_val (or_zero (field conversationStats ''total_conversations'')))),
                (''active'',
                 NumV (parseInt_val (or_zero (field conversationStats ''active_conversations'')))),
                (''ended'',
                 NumV (parseInt_val (or_zero (field conversationStats ''ended_conversations'')))),
                (''avgMessages'',
                 NumV (math_round
                   (or_zero (field conversationStats ''avg_messages_per_conversation'')))),
                (''today'',
                 NumV (parseInt_val (or_zero (field conversationStats ''conversations_today''))))]),
          (''messages'',
           Obj [(''total'',
                 NumV (parseInt_val (or_zero (read_opt (first_row messageStats) ''total_messages'')))),
                (''uniqueSenders'',
                 NumV (parseInt_val (or_zero (read_opt (first_row messageStats) ''unique_senders'')))),
                (''dailyStats'', Rows dailyMessages)])]"

definition dashboard_handler :: "database \<Rightarrow> request \<Rightarrow> response io" where
  "dashboard_handler d req =
     bind (both (client_query d dashboard_userCountQuery [])
            (both (client_query d dashboard_genderStatsQuery [])
              (both (client_query d dashboard_messageStatsQuery [])
                    (client_query d dashboard_dailyMessagesQuery []))))
       (\<lambda>(userCount, genderStats, messageStats, dailyMessages).
          bind (dashboard_conversationStats d)
            (\<lambda>conversationStats.
               bind (read (first_row userCount) ''total_users'')
                 (\<lambda>total_users.
                    case conversationStats of
                      None \<Rightarrow> throw (undefined_read ''total_conversations'')
                    | Some stats \<Rightarrow>
                        ret (ok (dashboard_json total_users genderStats stats messageStats
                                   dailyMessages)))))"

section \<open>GET /api/users, /api/conversations, /api/messages\<close>

text \<open>Lines 194-211 and their copies: the two queries, then the summary.\<close>

definition paged_handler ::
  "database \<Rightarrow> paged_queries \<Rightarrow> string \<Rightarrow> string \<Rightarrow> int \<Rightarrow> int \<Rightarrow> response io" where
  "paged_handler d q rows_key total_key page limit =
     bind (both (client_query d (countQuery q) (countParams q))
                (client_query d (pageQuery q) (pageParams q)))
       (\<lambda>(countResult, pageResult).
          bind (read (first_row countResult) ''total'')
            (\<lambda>totalCell.
               ret (ok (list_body rows_key total_key pageResult
                          (pagination_of page limit (parseInt_val totalCell))))))"

definition users_handler :: "database \<Rightarrow> request \<Rightarrow> response io" where
  "users_handler d req =
     (let page = page_of (req_query req ''page'');
          limit = limit_of 20 (req_query req ''limit'');
          offset = offset_of page limit;
          search = str_or_empty (req_query req ''search'');
          gender = str_or_empty (req_query req ''gender'')
      in paged_handler d (users_queries search gender limit offset)
           ''users'' ''totalUsers'' page limit)"

definition conversations_handler :: "database \<Rightarrow> request \<Rightarrow> response io" where
  "conversations_handler d req =
     (let page = page_of (req_query req ''page'');
          limit = limit_of 20 (req_query req ''limit'');
          offset = offset_of page limit;
          status = str_or_empty (req_query req ''status'');
          search = str_or_empty (req_query req ''search'')
      in paged_handler d (conversations_queries status search limit offset)
           ''conversations'' ''totalConversations'' page limit)"

definition messages_handler :: "database \<Rightarrow> request \<Rightarrow> response io" where
  "messages_handler d req =
     (let page = page_of (req_query req ''page'');
          limit = limit_of 50 (req_query req ''limit'');
          offset = offset_of page limit;
          conversationId = str_or_empty (req_query req ''conversation_id'');
          userId = str_or_empty (req_query req ''user_id'');
          search = str_or_empty (req_query req ''search'');
          dateFrom = str_or_empty (req_query req ''date_from'');
          dateTo = str_or_empty (req_query req ''date_to'')
      in paged_handler d
           (messages_queries conversationId userId search dateFrom dateTo limit offset)
           ''messages'' ''totalMessages'' page limit)"

section \<open>GET /api/users/:identifier\<close>

definition userDetails_conversationCountQuery :: "string" where
  "userDetails_conversationCountQuery =
     ''\<newline>      SELECT COUNT(*) as conversation_count \<newline>      FROM conversations \<newline>      WHERE user1_id = $1 OR user2_id = $1\<newline>    ''"

definition userDetails_messageCountQuery :: "string" where
  "userDetails_messageCountQuery =
     ''\<newline>      SELECT COUNT(*) as message_count \<newline>      FROM chat_logs \<newline>      WHERE sender_user_id = $1\<newline>    ''"

definition userDetails_recentConversationsQuery :: "string" where
  "userDetails_recentConversationsQuery =
     ''\<newline>      SELECT \<newline>        id,\<newline>        CASE \<newline>          WHEN user1_id = $1 THEN user2_username\<newline>          ELSE user1_username\<newline>        END as partner_username,\<newline>        started_at,\<newline>        ended_at,\<newline>        status,\<newline>        (SELECT COUNT(*) FROM chat_logs WHERE conversation_id = conversations.id) as message_count\<newline>      FROM conversations \<newline>      WHERE user1_id = $1 OR user2_id = $1\<newline>      ORDER BY started_at DESC\<newline>      LIMIT 10\<newline>    ''"

definition userDetails_handler :: "database \<Rightarrow> request \<Rightarrow> response io" where
  "userDetails_handler d req =
     (let identifier = req_param req; lookup = resolve_identifier identifier in
      bind (client_query d (userQuery lookup) [queryParam lookup])
        (\<lambda>userResult.
           case userResult of
             [] \<Rightarrow> ret (not_found ''User not found'')
           | user # _ \<Rightarrow>
               bind (both (client_query d userDetails_conversationCountQuery
                             [field user ''user_id''])
                      (both (client_query d userDetails_messageCountQuery
                               [field user ''user_id''])
                            (client_query d userDetails_recentConversationsQuery
                               [field user ''user_id''])))
                 (\<lambda>(conversationCount, messageCount, recentConversations).
                    bind (read (first_row conversationCount) ''conversation_count'')
                      (\<lambda>conversation_count.
                         bind (read (first_row messageCount) ''message_count'')
                           (\<lambda>message_count.
                              ret (ok (Obj
                                [(''user'', RowObj user),
                                 (''stats'',
                                  Obj [(''conversationCount'',
                                        NumV (parseInt_val conversation_count)),
                                       (''messageCount'', NumV (parseInt_val message_count))]),
                                 (''recentConversations'', Rows recentConversations)])))))))"

section \<open>GET /api/conversations/:conversationId\<close>

definition conversationDetails_conversationQuery :: "string" where
  "conversationDetails_conversationQuery =
     ''\<newline>      SELECT *, \<newline>        (SELECT COUNT(*) FROM chat_logs WHERE conversation_id = conversations.id) as actual_message_count\<newline>      FROM conversations WHERE id = $1\<newline>    ''"

definition conversationDetails_messagesQuery :: "string" where
  "conversationDetails_messagesQuery =
     ''\<newline>      SELECT \<newline>        sender_user_id,\<newline>        sender_username,\<newline>        receiver_user_id,\<newline>        receiver_username,\<newline>        message,\<newline>        timestamp\<newline>      FROM chat_logs \<newline>      WHERE conversation_id = $1\<newline>      ORDER BY timestamp ASC\<newline>    ''"

definition conversationDetails_handler :: "database \<Rightarrow> request \<Rightarrow> response io" where
  "conversationDetails_handler d req =
     (let conversationId = req_param req in
      bind (both (client_query d conversationDetails_conversationQuery [JStr conversationId])
                 (client_query d conversationDetails_messagesQuery [JStr conversationId]))
        (\<lambda>(conversationResult, messagesResult).
           case conversationResult of
             [] \<Rightarrow> ret (not_found ''Conversation not found'')
           | conversation # _ \<Rightarrow>
               ret (ok (Obj [(''conversation'', RowObj conversation),
                             (''messages'', Rows messagesResult)]))))"

section \<open>GET /api/users/:userId/conversations\<close>

definition userConversations_conversationsQuery :: "string" where
  "userConversations_conversationsQuery =
     ''\<newline>      SELECT \<newline>        id,\<newline>        CASE \<newline>          WHEN user1_id = $1 THEN user2_id\<newline>          ELSE user1_id\<newline>        END as partner_id,\<newline>        CASE \<newline>          WHEN user1_id = $1 THEN user2_username\<newline>          ELSE user1_username\<newline>        END as partner_username,\<newline>        started_at,\<newline>        ended_at,\<newline>        status,\<newline>        (SELECT COUNT(*) FROM chat_logs WHERE conversation_id = conversations.id) as message_count\<newline>      FROM conversations \<newline>      WHERE user1_id = $1 OR user2_id = $1\<newline>      ORDER BY started_at DESC\<newline>      LIMIT $2 OFFSET $3\<newline>    ''"

definition userConversations_countQuery :: "string" where
  "userConversations_countQuery =
     ''\<newline>      SELECT COUNT(*) as total \<newline>      FROM conversations \<newline>      WHERE user1_id = $1 OR user2_id = $1\<newline>    ''"

definition userConversations_handler :: "database \<Rightarrow> request \<Rightarrow> response io" where
  "userConversations_handler d req =
     (let userId = req_param req;
          page = page_of (req_query req ''page'');
          limit = limit_of 20 (req_query req ''limit'');
          offset = offset_of page limit
      in bind (both (client_query d userConversations_conversationsQuery
                       [JNumber (js_parseInt userId), JNumber (Num limit), JNumber (Num offset)])
                    (client_query d userConversations_countQuery
                       [JNumber (js_parseInt userId)]))
           (\<lambda>(conversationsResult, countResult).
              bind (read (first_row countResult) ''total'')
                (\<lambda>totalCell.
                   ret (ok (list_body ''conversations'' ''totalConversations''
                              conversationsResult
                              (pagination_of page limit (parseInt_val totalCell)))))))"

section \<open>GET /api/users/search/:query\<close>

definition usersSearch_searchQuery :: "string" where
  "usersSearch_searchQuery =
     ''\<newline>      SELECT \<newline>        user_id,\<newline>        username,\<newline>        gender\<newline>      FROM usernames \<newline>      WHERE username ILIKE $1 OR user_id::text = $2\<newline>      ORDER BY username\<newline>      LIMIT $3\<newline>    ''"

definition usersSearch_handler :: "database \<Rightarrow> request \<Rightarrow> response io" where
  "usersSearch_handler d req =
     (let query = req_param req;
          limit = limit_of 10 (req_query req ''limit'')
      in bind (client_query d usersSearch_searchQuery
                 [JStr (''%'' @ query @ ''%''), JStr query, JNumber (Num limit)])
           (\<lambda>result. ret (ok (Obj [(''users'', Rows result)]))))"

section \<open>GET /api/activity/recent\<close>

definition activity_recentConversationsQuery :: "string" where
  "activity_recentConversationsQuery =
     ''\<newline>      SELECT \<newline>        'conversation' as type,\<newline>        id as reference_id,\<newline>        user1_username,\<newline>        user2_username,\<newline>        started_at as timestamp,\<newline>        status\<newline>      FROM conversations \<newline>      ORDER BY started_at DESC\<newline>      LIMIT $1\<newline>    ''"

definition activity_recentMessagesQuery :: "string" where
  "activity_recentMessagesQuery =
     ''\<newline>      SELECT \<newline>        'message' as type,\<newline>        conversation_id as reference_id,\<newline>        sender_username,\<newline>        receiver_username,\<newline>        LEFT(message, 50) as preview,\<newline>        timestamp\<newline>      FROM chat_logs \<newline>      ORDER BY timestamp DESC\<newline>      LIMIT $1\<newline>    ''"

definition activity_handler :: "database \<Rightarrow> request \<Rightarrow> response io" where
  "activity_handler d req =
     (let limit = limit_of 20 (req_query req ''limit'') in
      bind (both (client_query d activity_recentConversationsQuery [JNumber (Num limit)])
                 (client_query d activity_recentMessagesQuery [JNumber (Num limit)]))
        (\<lambda>(conversations, messages).
           ret (ok (Obj [(''activity'', Rows (activity_merge conversations messages limit))]))))"

section \<open>GET /api/analytics/usage\<close>

definition analytics_userGrowthQuery :: "string" where
  "analytics_userGrowthQuery =
     ''\<newline>      SELECT \<newline>        'Recent' as date,\<newline>        COUNT(*) as new_users\<newline>      FROM usernames \<newline>      WHERE user_id > (\<newline>        SELECT COALESCE(MAX(user_id) - 100, 0) FROM usernames\<newline>      )\<newline>    ''"

definition analytics_conversationsQuery :: "int \<Rightarrow> string" where
  "analytics_conversationsQuery days =
     ''\<newline>      SELECT \<newline>        DATE(started_at AT TIME ZONE 'Asia/Jakarta') as date,\<newline>        COUNT(*) as new_conversations\<newline>      FROM conversations \<newline>      WHERE started_at >= NOW() - INTERVAL ''
     @ [CHR 0x27]
     @ show_int days
     @ '' days'\<newline>      GROUP BY DATE(started_at AT TIME ZONE 'Asia/Jakarta')\<newline>      ORDER BY date DESC\<newline>    ''"

definition analytics_messagesQuery :: "int \<Rightarrow> string" where
  "analytics_messagesQuery days =
     ''\<newline>      SELECT \<newline>        DATE(timestamp AT TIME ZONE 'Asia/Jakarta') as date,\<newline>        COUNT(*) as messages\<newline>      FROM chat_logs \<newline>      WHERE timestamp >= NOW() - INTERVAL ''
     @ [CHR 0x27]
     @ show_int days
     @ '' days'\<newline>      GROUP BY DATE(timestamp AT TIME ZONE 'Asia/Jakarta')\<newline>      ORDER BY date DESC\<newline>    ''"

definition analytics_activeUsersQuery :: "int \<Rightarrow> string" where
  "analytics_activeUsersQuery days =
     ''\<newline>      SELECT \<newline>        DATE(timestamp AT TIME ZONE 'Asia/Jakarta') as date,\<newline>        COUNT(DISTINCT sender_user_id) as active_users\<newline>      FROM chat_logs \<newline>      WHERE timestamp >= NOW() - INTERVAL ''
     @ [CHR 0x27]
     @ show_int days
     @ '' days'\<newline>      GROUP BY DATE(timestamp AT TIME ZONE 'Asia/Jakarta')\<newline>      ORDER BY date DESC\<newline>    ''"

text \<open>\<open>const days = parseInt(req.query.days) || 7;\<close>\<close>

definition days_of :: "request \<Rightarrow> int" where
  "days_of req = num_or (parseInt_query (req_query req ''days'')) 7"

definition analytics_handler :: "database \<Rightarrow> request \<Rightarrow> response io" where
  "analytics_handler d req =
     (let days = days_of req in
      bind (both (client_query d analytics_userGrowthQuery [])
             (both (client_query d (analytics_conversationsQuery days) [])
               (both (client_query d (analytics_messagesQuery days) [])
                     (client_query d (analytics_activeUsersQuery days) []))))
        (\<lambda>(userGrowth, conversations, messages, activeUsers).
           ret (ok (Obj [(''userRegistrations'', Rows userGrowth),
                         (''conversations'', Rows conversations),
                         (''messages'', Rows messages),
                         (''activeUsers'', Rows activeUsers)]))))"

section \<open>The ten endpoints\<close>

datatype endpoint =
    DashboardStats | Users | UserDetails | Conversations | ConversationDetails
  | Messages | UserConversations | UsersSearch | ActivityRecent | AnalyticsUsage

text \<open>The context label each handler passes to \<open>handleError\<close>.\<close>

fun context_label :: "endpoint \<Rightarrow> string" where
  "context_label DashboardStats = ''dashboard stats''"
| "context_label Users = ''get users''"
| "context_label UserDetails = ''get user details''"
| "context_label Conversations = ''get conversations''"
| "context_label ConversationDetails = ''get conversation details''"
| "context_label Messages = ''get messages''"
| "context_label UserConversations = ''get user conversations''"
| "context_label UsersSearch = ''search users''"
| "context_label ActivityRecent = ''get recent activity''"
| "context_label AnalyticsUsage = ''get usage analytics''"

fun handler_of :: "endpoint \<Rightarrow> database \<Rightarrow> request \<Rightarrow> response io" where
  "handler_of DashboardStats = dashboard_handler"
| "handler_of Users = users_handler"
| "handler_of UserDetails = userDetails_handler"
| "handler_of Conversations = conversations_handler"
| "handler_of ConversationDetails = conversationDetails_handler"
| "handler_of Messages = messages_handler"
| "handler_of UserConversations = userConversations_handler"
| "handler_of UsersSearch = usersSearch_handler"
| "handler_of ActivityRecent = activity_handler"
| "handler_of AnalyticsUsage = analytics_handler"

definition handle :: "endpoint \<Rightarrow> request \<Rightarrow> world \<Rightarrow> response \<times> event list" where
  "handle e req w = with_client w (context_label e) (\<lambda>d. handler_of e d req)"

section \<open>Vocabulary of the properties\<close>

definition text_of :: "event \<Rightarrow> string" where
  "text_of ev = (case ev of Query t _ _ \<Rightarrow> t | _ \<Rightarrow> [])"

definition rejected :: "event \<Rightarrow> bool" where
  "rejected ev = (case ev of Query _ _ r \<Rightarrow> (case r of Inl _ \<Rightarrow> True | Inr _ \<Rightarrow> False) | _ \<Rightarrow> False)"

text \<open>Whether the connection is open after a sequence of events, and how many times
  it was opened.\<close>

fun connection_open :: "event list \<Rightarrow> bool \<Rightarrow> bool" where
  "connection_open [] s = s"
| "connection_open (Connect # evs) s = connection_open evs True"
| "connection_open (End # evs) s = connection_open evs False"
| "connection_open (Query t ps r # evs) s = connection_open evs s"

definition count_event :: "event \<Rightarrow> event list \<Rightarrow> nat" where
  "count_event ev evs = length (filter (\<lambda>x. x = ev) evs)"

text \<open>
  A step is sound for \<open>P\<close>, \<open>Q\<close> and \<open>F\<close> when it only appends events, each of them
  satisfies \<open>P\<close>, and whenever it returns a value, that value satisfies \<open>F\<close>, each of
  the appended events satisfies \<open>Q\<close> as well, and the last of them is not a rejected
  query.
\<close>

definition ends_well :: "event list \<Rightarrow> bool" where
  "ends_well evs = (evs = [] \<or> \<not> rejected (last evs))"

definition sound :: "(event \<Rightarrow> bool) \<Rightarrow> (event \<Rightarrow> bool) \<Rightarrow> ('a \<Rightarrow> bool) \<Rightarrow> 'a io \<Rightarrow> bool" where
  "sound P Q F m =
     (\<forall>tr. \<exists>evs. snd (m tr) = tr @ evs \<and> list_all P evs
                \<and> (case fst (m tr) of
                     Inl e \<Rightarrow> True
                   | Inr a \<Rightarrow> list_all Q evs \<and> ends_well evs \<and> F a))"

text \<open>The texts a handler can send for a request, as the handler computes them.\<close>

definition paged_texts_of :: "paged_queries \<Rightarrow> string list" where
  "paged_texts_of q = [countQuery q, pageQuery q]"

fun query_texts :: "endpoint \<Rightarrow> request \<Rightarrow> string list" where
  "query_texts DashboardStats req =
     [dashboard_userCountQuery, dashboard_genderStatsQuery, dashboard_messageStatsQuery,
      dashboard_dailyMessagesQuery, dashboard_conversationStatsQuery,
      dashboard_conversationStatsFallbackQuery]"
| "query_texts Users req =
     paged_texts_of
       (users_queries (str_or_empty (req_query req ''search''))
          (str_or_empty (req_query req ''gender''))
          (limit_of 20 (req_query req ''limit''))
          (offset_of (page_of (req_query req ''page'')) (limit_of 20 (req_query req ''limit''))))"
| "query_texts UserDetails req =
     [userQuery (resolve_identifier (req_param req)), userDetails_conversationCountQuery,
      userDetails_messageCountQuery, userDetails_recentConversationsQuery]"
| "query_texts Conversations req =
     paged_texts_of
       (conversations_queries (str_or_empty (req_query req ''status''))
          (str_or_empty (req_query req ''search''))
          (limit_of 20 (req_query req ''limit''))
          (offset_of (page_of (req_query req ''page'')) (limit_of 20 (req_query req ''limit''))))"
| "query_texts ConversationDetails req =
     [conversationDetails_conversationQuery, conversationDetails_messagesQuery]"
| "query_texts Messages req =
     paged_texts_of
       (messages_queries (str_or_empty (req_query req ''conversation_id''))
          (str_or_empty (req_query req ''user_id''))
          (str_or_empty (req_query req ''search''))
          (str_or_empty (req_query req ''date_from''))
          (str_or_empty (req_query req ''date_to''))
          (limit_of 50 (req_query req ''limit''))
          (offset_of (page_of (req_query req ''page'')) (limit_of 50 (req_query req ''limit''))))"
| "query_texts UserConversations req =
     [userConversations_conversationsQuery, userConversations_countQuery]"
| "query_texts UsersSearch req = [usersSearch_searchQuery]"
| "query_texts ActivityRecent req =
     [activity_recentConversationsQuery, activity_recentMessagesQuery]"
| "query_texts AnalyticsUsage req =
     [analytics_userGrowthQuery, analytics_conversationsQuery (days_of req),
      analytics_messagesQuery (days_of req), analytics_activeUsersQuery (days_of req)]"

text \<open>
  Two requests to an endpoint activate the same filters: each optional filter of the
  endpoint is present in both or absent in both. Only the three filtered lists have
  filters; on every other endpoint any two requests activate the same (empty) set.
\<close>

definition same_presence :: "request \<Rightarrow> request \<Rightarrow> string \<Rightarrow> bool" where
  "same_presence r1 r2 k =
     ((str_or_empty (req_query r1 k) = []) = (str_or_empty (req_query r2 k) = []))"

fun same_filters :: "endpoint \<Rightarrow> request \<Rightarrow> request \<Rightarrow> bool" where
  "same_filters Users r1 r2 = (same_presence r1 r2 ''search'' \<and> same_presence r1 r2 ''gender'')"
| "same_filters Conversations r1 r2 =
     (same_presence r1 r2 ''status'' \<and> same_presence r1 r2 ''search'')"
| "same_filters Messages r1 r2 =
     (same_presence r1 r2 ''conversation_id'' \<and> same_presence r1 r2 ''user_id''
      \<and> same_presence r1 r2 ''search'' \<and> same_presence r1 r2 ''date_from''
      \<and> same_presence r1 r2 ''date_to'')"
| "same_filters e r1 r2 = True"

text \<open>The queries whose rejection the dashboard's inner \<open>try\<close>/\<open>catch\<close> can absorb.\<close>

fun recovered_texts :: "endpoint \<Rightarrow> string list" where
  "recovered_texts DashboardStats =
     [dashboard_conversationStatsQuery, dashboard_conversationStatsFallbackQuery]"
| "recovered_texts e = []"

text \<open>The field names of a response body, two levels deep.\<close>

definition keys :: "json \<Rightarrow> string list" where
  "keys j = (case j of Obj kvs \<Rightarrow> map fst kvs | _ \<Rightarrow> [])"

definition field_tree :: "json \<Rightarrow> (string \<times> string list) list" where
  "field_tree j = (case j of Obj kvs \<Rightarrow> map (\<lambda>(k, v). (k, keys v)) kvs | _ \<Rightarrow> [])"

text \<open>
  The response shapes of the interface table of the specification (section 6). The
  table elides the fields of \<open>pagination\<close>; they are the five of the summary of section
  4.2, under the names the handlers give them.
\<close>

fun documented_fields :: "endpoint \<Rightarrow> (string \<times> string list) list" where
  "documented_fields DashboardStats =
     [(''users'', [''total'', ''byGender'']),
      (''conversations'', [''total'', ''active'', ''ended'', ''avgMessages'', ''today'']),
      (''messages'', [''total'', ''uniqueSenders'', ''dailyStats''])]"
| "documented_fields Users =
     [(''users'', []),
      (''pagination'', [''currentPage'', ''totalPages'', ''totalUsers'', ''hasNext'', ''hasPrev''])]"
| "documented_fields UserDetails =
     [(''user'', []), (''stats'', [''conversationCount'', ''messageCount'']),
      (''recentConversations'', [])]"
| "documented_fields Conversations =
     [(''conversations'', []),
      (''pagination'',
       [''currentPage'', ''totalPages'', ''totalConversations'', ''hasNext'', ''hasPrev''])]"
| "documented_fields ConversationDetails = [(''conversation'', []), (''messages'', [])]"
| "documented_fields Messages =
     [(''messages'', []),
      (''pagination'',
       [''currentPage'', ''totalPages'', ''totalMessages'', ''hasNext'', ''hasPrev''])]"
| "documented_fields UserConversations =
     [(''conversations'', []),
      (''pagination'',
       [''currentPage'', ''totalPages'', ''totalConversations'', ''hasNext'', ''hasPrev''])]"
| "documented_fields UsersSearch = [(''users'', [])]"
| "documented_fields ActivityRecent = [(''activity'', [])]"
| "documented_fields AnalyticsUsage =
     [(''userRegistrations'', []), (''conversations'', []), (''messages'', []),
      (''activeUsers'', [])]"

text \<open>The not-found answers: only the two lookups have one.\<close>

fun not_found_answers :: "endpoint \<Rightarrow> response list" where
  "not_found_answers UserDetails = [not_found ''User not found'']"
| "not_found_answers ConversationDetails = [not_found ''Conversation not found'']"
| "not_found_answers e = []"

text \<open>A response a handler may give on its own, without \<open>handleError\<close>.\<close>

definition proper_answer :: "endpoint \<Rightarrow> response \<Rightarrow> bool" where
  "proper_answer e res =
     ((status res = 200 \<and> field_tree (body res) = documented_fields e)
      \<or> res \<in> set (not_found_answers e))"

definition allowed_event :: "endpoint \<Rightarrow> request \<Rightarrow> event \<Rightarrow> bool" where
  "allowed_event e req ev = (is_query ev \<and> text_of ev \<in> set (query_texts e req))"

definition harmless_event :: "endpoint \<Rightarrow> event \<Rightarrow> bool" where
  "harmless_event e ev = (\<not> rejected ev \<or> text_of ev \<in> set (recovered_texts e))"

section \<open>Sample requests and databases\<close>

definition no_query_string :: "string \<Rightarrow> string option" where
  "no_query_string k = None"

definition request_for :: "string \<Rightarrow> request" where
  "request_for p = \<lparr>req_param = p, req_query = no_query_string\<rparr>"

definition days_request :: "string \<Rightarrow> request" where
  "days_request n =
     \<lparr>req_param = [], req_query = (\<lambda>k. if k = ''days'' then Some n else None)\<rparr>"

definition search_request :: "string \<Rightarrow> request" where
  "search_request v =
     \<lparr>req_param = [], req_query = (\<lambda>k. if k = ''search'' then Some v else None)\<rparr>"

definition stamped :: "int \<Rightarrow> row" where
  "stamped t = [(''timestamp'', JDate t)]"

definition empty_database :: database where
  "empty_database n text params = Inr []"

definition empty_world :: world where
  "empty_world = \<lparr>connect_error = None, db = empty_database\<rparr>"

definition refusing_world :: world where
  "refusing_world = \<lparr>connect_error = Some ''connection refused'', db = empty_database\<rparr>"

text \<open>A database whose summary table exists and is empty (the fifth query of the
  dashboard returns no row) and whose fallback aggregation fails.\<close>

definition failing_fallback_database :: database where
  "failing_fallback_database n text params =
     (if n < 4 then Inr [[]] else if n = 4 then Inr [] else Inl ''fallback failed'')"

definition failing_fallback_world :: world where
  "failing_fallback_world = \<lparr>connect_error = None, db = failing_fallback_database\<rparr>"

section \<open>The summary in the words of the specification\<close>

text \<open>
  Section 4.2 of the specification: the answer of a list endpoint is the fetched rows
  and a summary with the current page, total pages = ceil(total / limit), the total
  count, hasNext = page < totalPages and hasPrev = page > 1; the rows of a page are
  those after the first (page - 1) * limit, at most limit of them. These two
  definitions are written from those words, not from the handlers.
\<close>

definition summary_spec :: "string \<Rightarrow> int \<Rightarrow> int \<Rightarrow> int \<Rightarrow> json" where
  "summary_spec total_key page limit n =
     Obj [(''currentPage'', NumV (Num page)),
          (''totalPages'', NumV (Num \<lceil>real_of_int n / real_of_int limit\<rceil>)),
          (total_key, NumV (Num n)),
          (''hasNext'', BoolV (page < \<lceil>real_of_int n / real_of_int limit\<rceil>)),
          (''hasPrev'', BoolV (1 < page))]"

definition list_answer_spec ::
  "string \<Rightarrow> string \<Rightarrow> row list \<Rightarrow> int \<Rightarrow> int \<Rightarrow> int \<Rightarrow> response" where
  "list_answer_spec rows_key total_key matching page limit n =
     \<lparr>status = 200,
      body = Obj [(rows_key, Rows (take (nat limit) (drop (nat ((page - 1) * limit)) matching))),
                  (''pagination'', summary_spec total_key page limit n)]\<rparr>"

section \<open>A database that holds the rows of a list\<close>

text \<open>
  A page query binds its limit and its offset as its last two parameters. Over the
  ordered rows that match, the database answers it with \<open>limit_offset\<close> of the two
  numbers it was sent, and rejects it when one of them is negative or is not a number.
\<close>

definition bound_int :: "jsval \<Rightarrow> int option" where
  "bound_int v = (case v of JNumber n \<Rightarrow> (case n of Num k \<Rightarrow> Some k | _ \<Rightarrow> None) | _ \<Rightarrow> None)"

definition answer_page :: "row list \<Rightarrow> jsval list \<Rightarrow> query_result" where
  "answer_page matching params =
     (case rev params of
        off # l # _ \<Rightarrow>
          (case (bound_int l, bound_int off) of
             (Some lv, Some ov) \<Rightarrow>
               (case limit_offset matching lv ov of
                  None \<Rightarrow> Inl ''LIMIT and OFFSET must not be negative''
                | Some rows \<Rightarrow> Inr rows)
           | _ \<Rightarrow> Inl ''invalid input syntax for type bigint'')
      | _ \<Rightarrow> Inl ''bind message supplies too few parameters'')"

text \<open>
  The database of one list: the query sent at position \<open>page_index\<close> is the page
  query, answered from the parameters the handler bound; the other query is the count
  query, answered with one row.
\<close>

definition list_database :: "nat \<Rightarrow> row \<Rightarrow> row list \<Rightarrow> database" where
  "list_database page_index count_row matching n text params =
     (if n = page_index then answer_page matching params else Inr [count_row])"

definition list_world :: "nat \<Rightarrow> row \<Rightarrow> row list \<Rightarrow> world" where
  "list_world page_index count_row matching =
     \<lparr>connect_error = None, db = list_database page_index count_row matching\<rparr>"

definition list_request :: "string \<Rightarrow> string \<Rightarrow> string \<Rightarrow> request" where
  "list_request p l g =
     \<lparr>req_param = [],
      req_query = (\<lambda>k. if k = ''page'' then Some p
                       else if k = ''limit'' then Some l
                       else if k = ''gender'' then Some g
                       else None)\<rparr>"

definition count_25 :: row where
  "count_25 = [(''total'', JStr ''25'')]"

definition rows_25 :: "row list" where
  "rows_25 = replicate 25 [(''gender'', JStr ''female'')]"

section \<open>Facts about parsing\<close>

lemma num_or_nonzero: "d \<noteq> 0 \<Longrightarrow> num_or n d \<noteq> 0"
  by (cases n) (simp_all add: num_or_def)

lemma parseInt_minus5: "js_parseInt ''-5'' = Num (- 5)"
  by (simp add: js_parseInt_def is_ws_def has_hex_prefix_def is_digit_in_def digit_of_def
      value_in_def)

lemma parseInt_minus3: "js_parseInt ''-3'' = Num (- 3)"
  by (simp add: js_parseInt_def is_ws_def has_hex_prefix_def is_digit_in_def digit_of_def
      value_in_def)

lemma parseInt_zero: "js_parseInt ''0'' = Num 0"
  by (simp add: js_parseInt_def is_ws_def has_hex_prefix_def is_digit_in_def digit_of_def
      value_in_def)

lemma parseInt_undefined: "js_parseInt ''undefined'' = NaN"
  by (simp add: js_parseInt_def is_ws_def has_hex_prefix_def is_digit_in_def digit_of_def
      value_in_def)

lemma parseInt_7: "js_parseInt ''7'' = Num 7"
  by (simp add: js_parseInt_def is_ws_def has_hex_prefix_def is_digit_in_def digit_of_def
      value_in_def)

lemma parseInt_30: "js_parseInt ''30'' = Num 30"
  by (simp add: js_parseInt_def is_ws_def has_hex_prefix_def is_digit_in_def digit_of_def
      value_in_def)

lemma parseInt_123: "js_parseInt ''123'' = Num 123"
  by (simp add: js_parseInt_def is_ws_def has_hex_prefix_def is_digit_in_def digit_of_def
      value_in_def)

lemma parseInt_12_5: "js_parseInt ''12.5'' = Num 12"
  by (simp add: js_parseInt_def is_ws_def has_hex_prefix_def is_digit_in_def digit_of_def
      value_in_def)

lemma parseInt_1e2: "js_parseInt ''1e2'' = Num 1"
  by (simp add: js_parseInt_def is_ws_def has_hex_prefix_def is_digit_in_def digit_of_def
      value_in_def)

lemma parseInt_blank: "js_parseInt '' '' = NaN"
  by (simp add: js_parseInt_def is_ws_def has_hex_prefix_def is_digit_in_def digit_of_def
      value_in_def)

lemma isNaN_alice: "js_isNaN ''alice''"
  by (simp add: js_isNaN_def js_toNumber_def strip_ws_def is_ws_def radix_of_prefix_def
      unsigned_decimal_def is_digit_in_def digit_of_def exponent_part_def)

lemma isNaN_at_alice: "js_isNaN ''@alice''"
  by (simp add: js_isNaN_def js_toNumber_def strip_ws_def is_ws_def radix_of_prefix_def
      unsigned_decimal_def is_digit_in_def digit_of_def exponent_part_def)

lemma not_isNaN_123: "\<not> js_isNaN ''123''"
  by (simp add: js_isNaN_def js_toNumber_def strip_ws_def is_ws_def radix_of_prefix_def
      unsigned_decimal_def is_digit_in_def digit_of_def exponent_part_def value_in_def)

lemma not_isNaN_12_5: "\<not> js_isNaN ''12.5''"
  by (simp add: js_isNaN_def js_toNumber_def strip_ws_def is_ws_def radix_of_prefix_def
      unsigned_decimal_def is_digit_in_def digit_of_def exponent_part_def value_in_def
      pow10_def)

lemma not_isNaN_1e2: "\<not> js_isNaN ''1e2''"
  by (simp add: js_isNaN_def js_toNumber_def strip_ws_def is_ws_def radix_of_prefix_def
      unsigned_decimal_def is_digit_in_def digit_of_def exponent_part_def value_in_def
      pow10_def)

lemma not_isNaN_blank: "\<not> js_isNaN '' ''"
  by (simp add: js_isNaN_def js_toNumber_def strip_ws_def is_ws_def)

lemma show_int_7: "show_int 7 = ''7''"
  by (simp add: show_int_def show_nat.simps)

lemma show_int_30: "show_int 30 = ''30''"
  by (simp add: show_int_def show_nat.simps)


section \<open>Effective page and page size\<close>

lemma page_of_nonzero: "page_of p \<noteq> 0"
  by (simp add: page_of_def num_or_nonzero)

lemma limit_of_nonzero: "d \<noteq> 0 \<Longrightarrow> limit_of d l \<noteq> 0"
  by (simp add: limit_of_def num_or_nonzero)

text \<open>
  C3, as stated: the effective page is at least 1 and the effective page size is at
  least 1, a requested limit of zero or less being raised to 1. The code has no such
  clamp: \<open>limit=-5\<close> is parsed to \<open>-5\<close>, which is truthy and therefore kept.
\<close>

theorem page_limit_minimum_counterexample:
  "\<not> (\<forall>p l. 1 \<le> page_of p \<and> 1 \<le> limit_of 20 l)"
proof
  assume "\<forall>p l. 1 \<le> page_of p \<and> 1 \<le> limit_of 20 l"
  then have "1 \<le> limit_of 20 (Some ''-5'')" by blast
  then show False
    by (simp add: limit_of_def parseInt_query_def parseInt_minus5 num_or_def)
qed

text \<open>
  C3, amended: the effective page is \<open>parseInt(page)\<close> when that is a number other than
  zero and 1 otherwise; the effective page size is \<open>parseInt(limit)\<close> when that is a
  number other than zero and the endpoint's default (20, 50 or 10) otherwise. So neither
  is ever zero and the division in \<open>totalPages\<close> is never by zero; a requested zero gives
  the default, not 1, and a negative page or limit is kept as it is. The page and the
  page size are at least 1 exactly when the parsed request is not negative.
\<close>

theorem page_limit_effective:
  "page_of p = (case parseInt_query p of Num k \<Rightarrow> if k = 0 then 1 else k | _ \<Rightarrow> 1)
   \<and> limit_of d l = (case parseInt_query l of Num k \<Rightarrow> if k = 0 then d else k | _ \<Rightarrow> d)
   \<and> page_of p \<noteq> 0
   \<and> limit_of 20 l \<noteq> 0 \<and> limit_of 50 l \<noteq> 0 \<and> limit_of 10 l \<noteq> 0
   \<and> (1 \<le> page_of p) = (\<not> (\<exists>k. k < 0 \<and> parseInt_query p = Num k))
   \<and> (1 \<le> limit_of 20 l) = (\<not> (\<exists>k. k < 0 \<and> parseInt_query l = Num k))"
  by (cases "parseInt_query p"; cases "parseInt_query l")
     (auto simp add: page_of_def limit_of_def num_or_def)

theorem page_limit_effective_witness:
  "page_of (Some ''-3'') = - 3 \<and> limit_of 20 (Some ''-5'') = - 5
   \<and> limit_of 20 (Some ''0'') = 20 \<and> page_of None = 1"
  using page_limit_effective [of "Some ''-3''" 20 "Some ''-5''"]
        page_limit_effective [of None 20 "Some ''0''"]
  by (simp add: parseInt_query_def parseInt_minus3 parseInt_minus5 parseInt_zero
      parseInt_undefined)

section \<open>The filter-predicate builders are well formed\<close>




lemma paged_texts:
  "countQuery (paged cq pq b l off) = cq (whereClause b)
   \<and> pageQuery (paged cq pq b l off) = pq (whereClause b) (paramIndex b)"
  by (simp add: paged_def Let_def)



section \<open>Every handler only sends its own queries\<close>

lemma ends_well_append:
  "ends_well evs1 \<Longrightarrow> ends_well evs2 \<Longrightarrow> ends_well (evs1 @ evs2)"
  by (cases "evs2 = []") (auto simp add: ends_well_def)

lemma sound_ret: "F x \<Longrightarrow> sound P Q F (ret x)"
  by (simp add: sound_def ret_def ends_well_def)

lemma sound_throw: "sound P Q F (throw e)"
  by (simp add: sound_def throw_def)

lemma sound_query:
  "(\<And>r. P (Query t ps r)) \<Longrightarrow> (\<And>rows. Q (Query t ps (Inr rows))) \<Longrightarrow>
   sound P Q (\<lambda>_. True) (client_query d t ps)"
  by (auto simp add: sound_def client_query_def Let_def ends_well_def rejected_def
      split: sum.split)

lemma sound_read: "sound P Q (\<lambda>_. True) (read obj k)"
  by (cases obj) (simp_all add: read_def sound_ret sound_throw)

lemma sound_bind:
  assumes m: "sound P Q (\<lambda>_. True) m" and f: "\<And>a. sound P Q F (f a)"
  shows "sound P Q F (bind m f)"
  unfolding sound_def
proof
  fix tr
  from m obtain evs1 where 1: "snd (m tr) = tr @ evs1" "list_all P evs1"
    "case fst (m tr) of Inl e \<Rightarrow> True | Inr a \<Rightarrow> list_all Q evs1 \<and> ends_well evs1 \<and> True"
    unfolding sound_def by blast
  show "\<exists>evs. snd (bind m f tr) = tr @ evs \<and> list_all P evs \<and>
          (case fst (bind m f tr) of Inl e \<Rightarrow> True
           | Inr a \<Rightarrow> list_all Q evs \<and> ends_well evs \<and> F a)"
  proof (cases "fst (m tr)")
    case (Inl e)
    then have "bind m f tr = (Inl e, tr @ evs1)"
      using 1(1) by (cases "m tr") (simp add: bind_def)
    then show ?thesis using 1(2) by simp
  next
    case (Inr a)
    then have b: "bind m f tr = f a (tr @ evs1)"
      using 1(1) by (cases "m tr") (simp add: bind_def)
    from f [of a] obtain evs2 where 2: "snd (f a (tr @ evs1)) = (tr @ evs1) @ evs2"
      "list_all P evs2"
      "case fst (f a (tr @ evs1)) of Inl e \<Rightarrow> True
       | Inr x \<Rightarrow> list_all Q evs2 \<and> ends_well evs2 \<and> F x"
      unfolding sound_def by blast
    have q1: "list_all Q evs1" "ends_well evs1" using 1(3) Inr by simp_all
    show ?thesis
      using b 2 1(2) q1
      by (intro exI [of _ "evs1 @ evs2"]) (auto simp add: ends_well_append split: sum.splits)
  qed
qed

lemma sound_both:
  assumes m1: "sound P Q (\<lambda>_. True) m1" and m2: "sound P Q (\<lambda>_. True) m2"
  shows "sound P Q (\<lambda>_. True) (both m1 m2)"
  unfolding sound_def
proof
  fix tr
  from m1 obtain evs1 where 1: "snd (m1 tr) = tr @ evs1" "list_all P evs1"
    "case fst (m1 tr) of Inl e \<Rightarrow> True | Inr a \<Rightarrow> list_all Q evs1 \<and> ends_well evs1 \<and> True"
    unfolding sound_def by blast
  from m2 obtain evs2 where 2: "snd (m2 (tr @ evs1)) = (tr @ evs1) @ evs2" "list_all P evs2"
    "case fst (m2 (tr @ evs1)) of Inl e \<Rightarrow> True
     | Inr a \<Rightarrow> list_all Q evs2 \<and> ends_well evs2 \<and> True"
    unfolding sound_def by blast
  show "\<exists>evs. snd (both m1 m2 tr) = tr @ evs \<and> list_all P evs \<and>
          (case fst (both m1 m2 tr) of Inl e \<Rightarrow> True
           | Inr a \<Rightarrow> list_all Q evs \<and> ends_well evs \<and> True)"
    using 1 2
    by (intro exI [of _ "evs1 @ evs2"])
       (cases "m1 tr"; cases "m2 (tr @ evs1)";
        auto simp add: both_def ends_well_append split: sum.splits)
qed

text \<open>A \<open>catch\<close> block that sends a query before it returns: what it returns after a
  rejected query of the \<open>try\<close> block still ends well.\<close>

lemma sound_try_catch:
  assumes m: "sound (\<lambda>ev. P ev \<and> Q ev) Q F m" and h: "\<And>e. sound P Q F (h e)"
    and grows: "\<And>e tr a. fst (h e tr) = Inr a \<Longrightarrow> snd (h e tr) \<noteq> tr"
  shows "sound P Q F (try_catch m h)"
  unfolding sound_def
proof
  fix tr
  from m obtain evs1 where 1: "snd (m tr) = tr @ evs1" "list_all (\<lambda>ev. P ev \<and> Q ev) evs1"
    "case fst (m tr) of Inl e \<Rightarrow> True | Inr a \<Rightarrow> list_all Q evs1 \<and> ends_well evs1 \<and> F a"
    unfolding sound_def by blast
  have pq: "list_all P evs1" "list_all Q evs1"
    using 1(2) by (simp_all add: list_all_iff)
  show "\<exists>evs. snd (try_catch m h tr) = tr @ evs \<and> list_all P evs \<and>
          (case fst (try_catch m h tr) of Inl e \<Rightarrow> True
           | Inr a \<Rightarrow> list_all Q evs \<and> ends_well evs \<and> F a)"
  proof (cases "fst (m tr)")
    case (Inr a)
    then have "try_catch m h tr = (Inr a, tr @ evs1)"
      using 1(1) by (cases "m tr") (simp add: try_catch_def)
    then show ?thesis using 1(3) Inr pq by simp
  next
    case (Inl e)
    then have b: "try_catch m h tr = h e (tr @ evs1)"
      using 1(1) by (cases "m tr") (simp add: try_catch_def)
    from h [of e] obtain evs2 where 2: "snd (h e (tr @ evs1)) = (tr @ evs1) @ evs2"
      "list_all P evs2"
      "case fst (h e (tr @ evs1)) of Inl e \<Rightarrow> True
       | Inr x \<Rightarrow> list_all Q evs2 \<and> ends_well evs2 \<and> F x"
      unfolding sound_def by blast
    have ne: "\<And>x. fst (h e (tr @ evs1)) = Inr x \<Longrightarrow> evs2 \<noteq> []"
      using grows [of e "tr @ evs1"] 2(1) by auto
    have ew: "\<And>x. fst (h e (tr @ evs1)) = Inr x \<Longrightarrow> ends_well (evs1 @ evs2)"
      using ne 2(3) by (auto simp add: ends_well_def)
    show ?thesis
      using b 2 pq ew
      by (intro exI [of _ "evs1 @ evs2"]) (auto split: sum.splits)
  qed
qed

lemmas sound_intros = sound_ret sound_throw sound_read sound_bind sound_both sound_query

lemmas handler_simps = allowed_event_def harmless_event_def proper_answer_def
  is_query_def text_of_def rejected_def paged_texts_of_def ok_def not_found_def field_tree_def
  keys_def pagination_json_def list_body_def

lemma paged_handler_sound:
  assumes "set (paged_texts_of q) \<subseteq> set (query_texts e req)"
    and "documented_fields e
         = [(rk, []),
            (''pagination'', [''currentPage'', ''totalPages'', tk, ''hasNext'', ''hasPrev''])]"
  shows "sound (allowed_event e req) (harmless_event e) (proper_answer e)
           (paged_handler d q rk tk page limit)"
  unfolding paged_handler_def
  using assms
  by (auto intro!: sound_intros simp add: handler_simps)

lemma users_sound:
  "sound (allowed_event Users req) (harmless_event Users) (proper_answer Users)
     (users_handler d req)"
  unfolding users_handler_def Let_def
  by (rule paged_handler_sound) simp_all

lemma conversations_sound:
  "sound (allowed_event Conversations req) (harmless_event Conversations) (proper_answer Conversations)
     (conversations_handler d req)"
  unfolding conversations_handler_def Let_def
  by (rule paged_handler_sound) simp_all

lemma messages_sound:
  "sound (allowed_event Messages req) (harmless_event Messages) (proper_answer Messages)
     (messages_handler d req)"
  unfolding messages_handler_def Let_def
  by (rule paged_handler_sound) simp_all

lemma userDetails_sound:
  "sound (allowed_event UserDetails req) (harmless_event UserDetails) (proper_answer UserDetails)
     (userDetails_handler d req)"
  unfolding userDetails_handler_def Let_def
  by (auto intro!: sound_intros simp add: handler_simps split: list.split)

lemma conversationDetails_sound:
  "sound (allowed_event ConversationDetails req) (harmless_event ConversationDetails) (proper_answer ConversationDetails)
     (conversationDetails_handler d req)"
  unfolding conversationDetails_handler_def Let_def
  by (auto intro!: sound_intros simp add: handler_simps split: list.split)

lemma userConversations_sound:
  "sound (allowed_event UserConversations req) (harmless_event UserConversations) (proper_answer UserConversations)
     (userConversations_handler d req)"
  unfolding userConversations_handler_def Let_def
  by (auto intro!: sound_intros simp add: handler_simps split: list.split)

lemma usersSearch_sound:
  "sound (allowed_event UsersSearch req) (harmless_event UsersSearch) (proper_answer UsersSearch)
     (usersSearch_handler d req)"
  unfolding usersSearch_handler_def Let_def
  by (auto intro!: sound_intros simp add: handler_simps split: list.split)

lemma activity_sound:
  "sound (allowed_event ActivityRecent req) (harmless_event ActivityRecent) (proper_answer ActivityRecent)
     (activity_handler d req)"
  unfolding activity_handler_def Let_def
  by (auto intro!: sound_intros simp add: handler_simps split: list.split)

lemma analytics_sound:
  "sound (allowed_event AnalyticsUsage req) (harmless_event AnalyticsUsage) (proper_answer AnalyticsUsage)
     (analytics_handler d req)"
  unfolding analytics_handler_def Let_def
  by (auto intro!: sound_intros simp add: handler_simps split: list.split)

lemma dashboard_conversationStats_sound:
  "sound (allowed_event DashboardStats req) (harmless_event DashboardStats) (\<lambda>_. True)
     (dashboard_conversationStats d)"
  unfolding dashboard_conversationStats_def
proof (rule sound_try_catch)
  show "sound
     (\<lambda>ev. allowed_event DashboardStats req ev \<and> harmless_event DashboardStats ev)
     (harmless_event DashboardStats) (\<lambda>_. True)
     (bind (client_query d dashboard_conversationStatsQuery [])
        (\<lambda>statsResult.
           if 0 < length statsResult then ret (first_row statsResult)
           else bind (client_query d dashboard_conversationStatsFallbackQuery [])
                  (\<lambda>fallbackResult. ret (first_row fallbackResult))))"
    by (auto intro!: sound_intros simp add: handler_simps)
next
  fix e
  show "sound (allowed_event DashboardStats req) (harmless_event DashboardStats) (\<lambda>_. True)
     (bind (client_query d dashboard_conversationStatsFallbackQuery [])
        (\<lambda>fallbackResult. ret (first_row fallbackResult)))"
    by (auto intro!: sound_intros simp add: handler_simps)
next
  fix e tr a
  assume "fst (bind (client_query d dashboard_conversationStatsFallbackQuery [])
                (\<lambda>fallbackResult. ret (first_row fallbackResult)) tr) = Inr a"
  then show "snd (bind (client_query d dashboard_conversationStatsFallbackQuery [])
                (\<lambda>fallbackResult. ret (first_row fallbackResult)) tr) \<noteq> tr"
    by (auto simp add: bind_def client_query_def ret_def Let_def split: sum.splits)
qed

lemma dashboard_sound:
  "sound (allowed_event DashboardStats req) (harmless_event DashboardStats) (proper_answer DashboardStats)
     (dashboard_handler d req)"
  unfolding dashboard_handler_def Let_def
  by (auto intro!: sound_intros dashboard_conversationStats_sound
      simp add: handler_simps dashboard_json_def split: option.split)

lemma handler_sound:
  "sound (allowed_event e req) (harmless_event e) (proper_answer e) (handler_of e d req)"
  by (cases e)
     (simp_all add: dashboard_sound users_sound userDetails_sound conversations_sound
        conversationDetails_sound messages_sound userConversations_sound usersSearch_sound
        activity_sound analytics_sound)

section \<open>The frame of a handler\<close>

lemma handle_cases:
  "\<exists>evs. snd (handle e req w) = Connect # evs @ [End]
      \<and> list_all (allowed_event e req) evs
      \<and> ((\<exists>err. fst (handle e req w) = handleError err (context_label e))
         \<or> (proper_answer e (fst (handle e req w)) \<and> list_all (harmless_event e) evs
            \<and> ends_well evs \<and> connect_error w = None))"
proof (cases "connect_error w")
  case (Some m)
  then show ?thesis
    by (intro exI [of _ "[]"]) (auto simp add: handle_def with_client_def)
next
  case None
  from handler_sound [of e req "db w"] obtain evs where
    1: "snd (handler_of e (db w) req [Connect]) = [Connect] @ evs"
       "list_all (allowed_event e req) evs"
       "case fst (handler_of e (db w) req [Connect]) of Inl err \<Rightarrow> True
        | Inr a \<Rightarrow> list_all (harmless_event e) evs \<and> ends_well evs \<and> proper_answer e a"
    unfolding sound_def by blast
  show ?thesis
    using None 1
    by (intro exI [of _ evs])
       (cases "handler_of e (db w) req [Connect]";
        auto simp add: handle_def with_client_def split: sum.splits)
qed


lemma connection_open_queries:
  "list_all is_query evs \<Longrightarrow> connection_open (evs @ rest) s = connection_open rest s"
  by (induction evs arbitrary: s) (auto simp add: is_query_def split: event.splits)

lemma count_event_queries:
  "list_all is_query evs \<Longrightarrow> \<not> is_query ev \<Longrightarrow> count_event ev evs = 0"
  by (induction evs) (auto simp add: count_event_def)

lemma allowed_is_query: "list_all (allowed_event e req) evs \<Longrightarrow> list_all is_query evs"
  by (simp add: list_all_iff allowed_event_def)

text \<open>
  C9: every handler opens one connection, before anything else, and ends it as the last
  thing it does, whatever happens in between: the events of a run are one \<open>Connect\<close>,
  then queries only, then one \<open>End\<close>, for every endpoint, request and database, also
  when connecting fails, a query is rejected, or the answer is a 404. So the connection
  is never open after a run.
\<close>

theorem connection_always_released:
  "(\<exists>evs. snd (handle e req w) = Connect # evs @ [End] \<and> list_all is_query evs)
   \<and> count_event Connect (snd (handle e req w)) = 1
   \<and> count_event End (snd (handle e req w)) = 1
   \<and> \<not> connection_open (snd (handle e req w)) False"
proof -
  from handle_cases [of e req w] obtain evs where
    1: "snd (handle e req w) = Connect # evs @ [End]" "list_all (allowed_event e req) evs"
    by blast
  have q: "list_all is_query evs" using 1(2) by (rule allowed_is_query)
  have c1: "count_event Connect evs = 0" and c2: "count_event End evs = 0"
    using q by (simp_all add: count_event_queries is_query_def)
  show ?thesis
    using 1(1) q c1 c2
    by (auto simp add: count_event_def connection_open_queries)
qed

theorem connection_always_released_witness:
  "count_event End (snd (handle UserDetails (request_for ''alice'') refusing_world)) = 1
   \<and> \<not> connection_open (snd (handle UserDetails (request_for ''alice'') empty_world)) False
   \<and> \<not> connection_open (snd (handle DashboardStats (request_for []) failing_fallback_world)) False"
  using connection_always_released [of UserDetails "request_for ''alice''" refusing_world]
    connection_always_released [of UserDetails "request_for ''alice''" empty_world]
    connection_always_released [of DashboardStats "request_for []" failing_fallback_world]
  by simp

section \<open>Error responses\<close>

lemma userDetails_not_found:
  assumes "connect_error w = None"
    and "db w 0 (userQuery (resolve_identifier (req_param req)))
           [queryParam (resolve_identifier (req_param req))] = Inr []"
  shows "fst (handle UserDetails req w) = not_found ''User not found''"
  using assms
  by (simp add: handle_def with_client_def userDetails_handler_def Let_def bind_def
      client_query_def is_query_def ret_def)




section \<open>Query texts and the values of the request\<close>

lemma users_filters_shape:
  "(s = []) = (s' = []) \<Longrightarrow> (g = []) = (g' = []) \<Longrightarrow>
   whereClause (users_filters s g) = whereClause (users_filters s' g')
   \<and> paramIndex (users_filters s g) = paramIndex (users_filters s' g')"
  by (cases "s = []"; cases "g = []";
      simp add: users_filters_def push_filter_def builder_init_def Let_def)

lemma conversations_filters_shape:
  "(s = []) = (s' = []) \<Longrightarrow> (g = []) = (g' = []) \<Longrightarrow>
   whereClause (conversations_filters s g) = whereClause (conversations_filters s' g')
   \<and> paramIndex (conversations_filters s g) = paramIndex (conversations_filters s' g')"
  by (cases "s = []"; cases "g = []";
      simp add: conversations_filters_def push_filter_def builder_init_def Let_def)

lemma messages_filters_shape:
  "(c = []) = (c' = []) \<Longrightarrow> (u = []) = (u' = []) \<Longrightarrow> (s = []) = (s' = []) \<Longrightarrow>
   (f = []) = (f' = []) \<Longrightarrow> (t = []) = (t' = []) \<Longrightarrow>
   whereClause (messages_filters c u s f t) = whereClause (messages_filters c' u' s' f' t')
   \<and> paramIndex (messages_filters c u s f t) = paramIndex (messages_filters c' u' s' f' t')"
  by (cases "c = []"; cases "u = []"; cases "s = []"; cases "f = []"; cases "t = []";
      simp add: messages_filters_def push_filter_def builder_init_def Let_def)

lemma same_filters_texts:
  assumes "e \<noteq> AnalyticsUsage" and "e \<noteq> UserDetails" and "same_filters e r1 r2"
  shows "query_texts e r1 = query_texts e r2"
proof (cases e)
  case Users
  then show ?thesis
    using assms(3)
      users_filters_shape [of "str_or_empty (req_query r1 ''search'')"
        "str_or_empty (req_query r2 ''search'')" "str_or_empty (req_query r1 ''gender'')"
        "str_or_empty (req_query r2 ''gender'')"]
    by (simp add: same_presence_def paged_texts_of_def users_queries_def paged_texts)
next
  case Conversations
  then show ?thesis
    using assms(3)
      conversations_filters_shape [of "str_or_empty (req_query r1 ''status'')"
        "str_or_empty (req_query r2 ''status'')" "str_or_empty (req_query r1 ''search'')"
        "str_or_empty (req_query r2 ''search'')"]
    by (simp add: same_presence_def paged_texts_of_def conversations_queries_def paged_texts)
next
  case Messages
  then show ?thesis
    using assms(3)
      messages_filters_shape [of "str_or_empty (req_query r1 ''conversation_id'')"
        "str_or_empty (req_query r2 ''conversation_id'')"
        "str_or_empty (req_query r1 ''user_id'')" "str_or_empty (req_query r2 ''user_id'')"
        "str_or_empty (req_query r1 ''search'')" "str_or_empty (req_query r2 ''search'')"
        "str_or_empty (req_query r1 ''date_from'')" "str_or_empty (req_query r2 ''date_from'')"
        "str_or_empty (req_query r1 ''date_to'')" "str_or_empty (req_query r2 ''date_to'')"]
    by (simp add: same_presence_def paged_texts_of_def messages_queries_def paged_texts)
qed (use assms in simp_all)

lemma lookup_texts:
  assumes "js_isNaN (req_param r1) = js_isNaN (req_param r2)"
  shows "query_texts UserDetails r1 = query_texts UserDetails r2"
  using assms by (simp add: resolve_identifier_def)

lemma lookup_text_fixed:
  "userQuery (resolve_identifier s) = userDetails_userQuery_by_id
   \<or> userQuery (resolve_identifier s) = userDetails_userQuery_by_name"
  by (simp add: resolve_identifier_def)

lemma lookup_text_differs: "userDetails_userQuery_by_id \<noteq> userDetails_userQuery_by_name"
  by (simp add: userDetails_userQuery_by_id_def userDetails_userQuery_by_name_def)

lemma lookup_trace:
  "map text_of (snd (handle UserDetails req empty_world))
   = [[], userQuery (resolve_identifier (req_param req)), []]"
  by (simp add: handle_def with_client_def empty_world_def empty_database_def
      userDetails_handler_def Let_def bind_def client_query_def ret_def text_of_def)

lemma parseInt_07: "js_parseInt ''07'' = Num 7"
  by (simp add: js_parseInt_def is_ws_def has_hex_prefix_def is_digit_in_def digit_of_def
      value_in_def)

lemma not_isNaN_456: "\<not> js_isNaN ''456''"
  by (simp add: js_isNaN_def js_toNumber_def strip_ws_def is_ws_def radix_of_prefix_def
      unsigned_decimal_def is_digit_in_def digit_of_def exponent_part_def value_in_def)

lemma days_7: "days_of (days_request ''7'') = 7"
  by (simp add: days_of_def days_request_def parseInt_query_def parseInt_7 num_or_def)

lemma days_07: "days_of (days_request ''07'') = 7"
  by (simp add: days_of_def days_request_def parseInt_query_def parseInt_07 num_or_def)

lemma days_30: "days_of (days_request ''30'') = 30"
  by (simp add: days_of_def days_request_def parseInt_query_def parseInt_30 num_or_def)

lemma analytics_text_differs:
  "analytics_conversationsQuery 7 \<noteq> analytics_conversationsQuery 30"
  by (simp add: analytics_conversationsQuery_def show_int_7 show_int_30)

lemma analytics_trace:
  "map text_of (snd (handle AnalyticsUsage req empty_world))
   = [[], analytics_userGrowthQuery, analytics_conversationsQuery (days_of req),
      analytics_messagesQuery (days_of req), analytics_activeUsersQuery (days_of req), []]"
  by (simp add: handle_def with_client_def empty_world_def empty_database_def
      analytics_handler_def Let_def bind_def both_def client_query_def ret_def text_of_def)

text \<open>
  C8, as stated: two requests that activate the same filters send the same query
  texts, on every endpoint. Two endpoints without any filter send texts that depend on
  a value of the request. The usage analytics writes the number of days into the
  \<open>INTERVAL\<close> literal of three of its queries: \<open>?days=7\<close> and \<open>?days=30\<close> send
  different texts. The single-user lookup chooses its text by the path segment:
  \<open>/api/users/123\<close> sends \<open>WHERE user_id = $1\<close> and \<open>/api/users/alice\<close> sends
  \<open>WHERE username = $1\<close>.
\<close>

theorem query_text_depends_on_values:
  "same_filters AnalyticsUsage (days_request ''7'') (days_request ''30'')
   \<and> map text_of (snd (handle AnalyticsUsage (days_request ''7'') empty_world))
     \<noteq> map text_of (snd (handle AnalyticsUsage (days_request ''30'') empty_world))
   \<and> same_filters UserDetails (request_for ''123'') (request_for ''alice'')
   \<and> map text_of (snd (handle UserDetails (request_for ''123'') empty_world))
     \<noteq> map text_of (snd (handle UserDetails (request_for ''alice'') empty_world))"
  by (simp add: analytics_trace days_7 days_30 analytics_text_differs lookup_trace
      request_for_def resolve_identifier_def not_isNaN_123 isNaN_alice lookup_text_differs)

text \<open>
  C8, amended: every query a handler sends has one of the texts that the handler
  computes for the request, and no text of the request is ever written into a query.
  On every endpoint but the usage analytics and the single-user lookup these texts are
  the same for two requests that activate the same filters, whatever the values: the
  values only travel in the parameter lists. The single-user lookup sends one of two
  fixed texts, the \<open>user_id\<close> query when the path segment coerces to a number and the
  \<open>username\<close> query otherwise, so its texts are the same for two segments that are
  both numeric or both not. The usage analytics writes the integer
  \<open>parseInt(days) || 7\<close> into its texts, so its texts are the same for two requests
  with the same effective number of days.
\<close>

theorem query_text_independent_of_values:
  "(\<forall>ev \<in> set (snd (handle e r1 w)). is_query ev \<longrightarrow> text_of ev \<in> set (query_texts e r1))
   \<and> (e \<noteq> AnalyticsUsage \<and> e \<noteq> UserDetails \<and> same_filters e r1 r2
        \<longrightarrow> query_texts e r1 = query_texts e r2)
   \<and> (js_isNaN (req_param r1) = js_isNaN (req_param r2) \<longrightarrow>
        query_texts UserDetails r1 = query_texts UserDetails r2)
   \<and> (userQuery (resolve_identifier (req_param r1)) = userDetails_userQuery_by_id
        \<or> userQuery (resolve_identifier (req_param r1)) = userDetails_userQuery_by_name)
   \<and> (days_of r1 = days_of r2 \<longrightarrow>
        query_texts AnalyticsUsage r1 = query_texts AnalyticsUsage r2)"
proof -
  from handle_cases [of e r1 w] obtain evs where
    1: "snd (handle e r1 w) = Connect # evs @ [End]" "list_all (allowed_event e r1) evs"
    by blast
  have a: "\<forall>ev \<in> set (snd (handle e r1 w)).
             is_query ev \<longrightarrow> text_of ev \<in> set (query_texts e r1)"
    using 1 by (auto simp add: list_all_iff allowed_event_def is_query_def)
  have b: "e \<noteq> AnalyticsUsage \<and> e \<noteq> UserDetails \<and> same_filters e r1 r2
        \<longrightarrow> query_texts e r1 = query_texts e r2"
    using same_filters_texts [of e r1 r2] by blast
  have c: "js_isNaN (req_param r1) = js_isNaN (req_param r2) \<longrightarrow>
        query_texts UserDetails r1 = query_texts UserDetails r2"
    using lookup_texts [of r1 r2] by blast
  have d: "days_of r1 = days_of r2 \<longrightarrow>
        query_texts AnalyticsUsage r1 = query_texts AnalyticsUsage r2"
    by simp
  show ?thesis
    by (intro conjI) (rule a b c d lookup_text_fixed)+
qed

theorem query_text_independent_of_values_witness:
  "Users \<noteq> AnalyticsUsage \<and> Users \<noteq> UserDetails
   \<and> same_filters Users (search_request ''alice'') (search_request ''bob'')
   \<and> query_texts Users (search_request ''alice'') = query_texts Users (search_request ''bob'')
   \<and> js_isNaN (req_param (request_for ''123'')) = js_isNaN (req_param (request_for ''456''))
   \<and> query_texts UserDetails (request_for ''123'') = query_texts UserDetails (request_for ''456'')
   \<and> days_of (days_request ''7'') = days_of (days_request ''07'')
   \<and> query_texts AnalyticsUsage (days_request ''7'')
     = query_texts AnalyticsUsage (days_request ''07'')"
proof -
  have s: "Users \<noteq> AnalyticsUsage \<and> Users \<noteq> UserDetails
      \<and> same_filters Users (search_request ''alice'') (search_request ''bob'')"
    by (simp add: same_presence_def search_request_def str_or_empty_def)
  have n: "js_isNaN (req_param (request_for ''123''))
      = js_isNaN (req_param (request_for ''456''))"
    by (simp add: request_for_def not_isNaN_123 not_isNaN_456)
  have d: "days_of (days_request ''7'') = days_of (days_request ''07'')"
    by (simp add: days_7 days_07)
  from query_text_independent_of_values
    [of Users "search_request ''alice''" empty_world "search_request ''bob''"] s
  have 1: "query_texts Users (search_request ''alice'')
      = query_texts Users (search_request ''bob'')"
    by blast
  from query_text_independent_of_values
    [of UserDetails "request_for ''123''" empty_world "request_for ''456''"] n
  have 2: "query_texts UserDetails (request_for ''123'')
      = query_texts UserDetails (request_for ''456'')"
    by blast
  from query_text_independent_of_values
    [of AnalyticsUsage "days_request ''7''" empty_world "days_request ''07''"] d
  have 3: "query_texts AnalyticsUsage (days_request ''7'')
      = query_texts AnalyticsUsage (days_request ''07'')"
    by blast
  show ?thesis
    by (intro conjI) (rule s [THEN conjunct1] s [THEN conjunct2, THEN conjunct1]
        s [THEN conjunct2, THEN conjunct2] 1 n 2 d 3)+
qed

section \<open>The dashboard's summary read and its fallback\<close>

lemma dashboard_summary_row:
  assumes "d (length (filter is_query tr)) dashboard_conversationStatsQuery [] = Inr (r # rs)"
  shows "dashboard_conversationStats d tr
         = (Inr (Some r), tr @ [Query dashboard_conversationStatsQuery [] (Inr (r # rs))])"
  using assms
  by (simp add: dashboard_conversationStats_def try_catch_def bind_def client_query_def
      ret_def first_row_def Let_def)

lemma dashboard_summary_rejected:
  assumes "d (length (filter is_query tr)) dashboard_conversationStatsQuery [] = Inl m"
  shows "snd (dashboard_conversationStats d tr)
         = tr @ [Query dashboard_conversationStatsQuery [] (Inl m),
                 Query dashboard_conversationStatsFallbackQuery []
                   (d (Suc (length (filter is_query tr)))
                      dashboard_conversationStatsFallbackQuery [])]"
  using assms
  by (simp add: dashboard_conversationStats_def try_catch_def bind_def client_query_def
      ret_def Let_def is_query_def split: sum.split)

lemma dashboard_summary_empty:
  assumes "d (length (filter is_query tr)) dashboard_conversationStatsQuery [] = Inr []"
    and "d (Suc (length (filter is_query tr))) dashboard_conversationStatsFallbackQuery []
         = Inr rows"
  shows "dashboard_conversationStats d tr
         = (Inr (first_row rows),
            tr @ [Query dashboard_conversationStatsQuery [] (Inr []),
                  Query dashboard_conversationStatsFallbackQuery [] (Inr rows)])"
  using assms
  by (simp add: dashboard_conversationStats_def try_catch_def bind_def client_query_def
      ret_def Let_def is_query_def)

lemma dashboard_summary_empty_rejected:
  assumes "d (length (filter is_query tr)) dashboard_conversationStatsQuery [] = Inr []"
    and "d (Suc (length (filter is_query tr))) dashboard_conversationStatsFallbackQuery []
         = Inl m"
  shows "snd (dashboard_conversationStats d tr)
         = tr @ [Query dashboard_conversationStatsQuery [] (Inr []),
                 Query dashboard_conversationStatsFallbackQuery [] (Inl m),
                 Query dashboard_conversationStatsFallbackQuery []
                   (d (Suc (Suc (length (filter is_query tr))))
                      dashboard_conversationStatsFallbackQuery [])]"
  using assms
  by (simp add: dashboard_conversationStats_def try_catch_def bind_def client_query_def
      ret_def Let_def is_query_def split: sum.split)

lemma dashboard_failing_trace:
  "snd (handle DashboardStats req failing_fallback_world)
   = [Connect,
      Query dashboard_userCountQuery [] (Inr [[]]),
      Query dashboard_genderStatsQuery [] (Inr [[]]),
      Query dashboard_messageStatsQuery [] (Inr [[]]),
      Query dashboard_dailyMessagesQuery [] (Inr [[]]),
      Query dashboard_conversationStatsQuery [] (Inr []),
      Query dashboard_conversationStatsFallbackQuery [] (Inl ''fallback failed''),
      Query dashboard_conversationStatsFallbackQuery [] (Inl ''fallback failed''),
      End]"
  by (simp add: handle_def with_client_def failing_fallback_world_def
      failing_fallback_database_def dashboard_handler_def dashboard_conversationStats_def
      Let_def bind_def both_def try_catch_def client_query_def ret_def is_query_def)

text \<open>
  C5: when the summary read returns a row the fallback is not sent, and when the
  summary read is rejected the fallback is sent once (the lemmas above). When the summary
  read returns no row, the fallback is sent inside the same \<open>try\<close> block, so a rejection
  of the fallback is caught by the \<open>catch\<close> block written for the summary read, which
  sends the fallback again: on a database whose summary table is empty and whose
  fallback aggregation fails, the fallback query is sent twice before the handler
  answers 500.
\<close>

theorem dashboard_fallback_sent_twice:
  "count_event (Query dashboard_conversationStatsFallbackQuery [] (Inl ''fallback failed''))
     (snd (handle DashboardStats (request_for []) failing_fallback_world)) = 2
   \<and> snd (handle DashboardStats (request_for []) failing_fallback_world) ! 5
     = Query dashboard_conversationStatsQuery [] (Inr [])
   \<and> status (fst (handle DashboardStats (request_for []) failing_fallback_world)) = 500"
proof -
  have "fst (handle DashboardStats (request_for []) failing_fallback_world)
        = handleError (DbError ''fallback failed'') ''dashboard stats''"
    by (simp add: handle_def with_client_def failing_fallback_world_def
      failing_fallback_database_def dashboard_handler_def dashboard_conversationStats_def
      Let_def bind_def both_def try_catch_def client_query_def ret_def is_query_def)
  then show ?thesis
    by (simp add: dashboard_failing_trace count_event_def handleError_def)
qed

section \<open>The single-user lookup\<close>

lemma bind_appends:
  assumes "\<And>a tr. \<exists>evs. snd (f a tr) = tr @ evs"
  shows "\<exists>evs. snd (bind (client_query d t ps) f tr0)
           = tr0 @ Query t ps (d (length (filter is_query tr0)) t ps) # evs"
proof (cases "d (length (filter is_query tr0)) t ps")
  case (Inl m)
  then show ?thesis by (simp add: bind_def client_query_def Let_def)
next
  case (Inr rows)
  from assms [of rows "tr0 @ [Query t ps (Inr rows)]"] obtain evs where
    "snd (f rows (tr0 @ [Query t ps (Inr rows)])) = (tr0 @ [Query t ps (Inr rows)]) @ evs"
    by blast
  with Inr show ?thesis by (simp add: bind_def client_query_def Let_def)
qed

lemma sound_appends: "sound P Q F m \<Longrightarrow> \<exists>evs. snd (m tr) = tr @ evs"
  unfolding sound_def by blast

lemma userDetails_rest_sound:
  "sound (\<lambda>_. True) (\<lambda>_. True) (\<lambda>_. True)
     (case userResult of
        [] \<Rightarrow> ret (not_found ''User not found'')
      | user # _ \<Rightarrow>
          bind (both (client_query d userDetails_conversationCountQuery [field user ''user_id''])
                 (both (client_query d userDetails_messageCountQuery [field user ''user_id''])
                       (client_query d userDetails_recentConversationsQuery
                          [field user ''user_id''])))
            (\<lambda>(conversationCount, messageCount, recentConversations).
               bind (read (first_row conversationCount) ''conversation_count'')
                 (\<lambda>conversation_count.
                    bind (read (first_row messageCount) ''message_count'')
                      (\<lambda>message_count.
                         ret (ok (Obj
                           [(''user'', RowObj user),
                            (''stats'',
                             Obj [(''conversationCount'', NumV (parseInt_val conversation_count)),
                                  (''messageCount'', NumV (parseInt_val message_count))]),
                            (''recentConversations'', Rows recentConversations)]))))))"
  by (auto intro!: sound_intros split: list.split)

lemma userDetails_first_query:
  assumes "connect_error w = None"
  shows "\<exists>rest. snd (handle UserDetails req w)
           = Connect
             # Query (userQuery (resolve_identifier (req_param req)))
                 [queryParam (resolve_identifier (req_param req))]
                 (db w 0 (userQuery (resolve_identifier (req_param req)))
                    [queryParam (resolve_identifier (req_param req))])
             # rest"
proof -
  let ?lk = "resolve_identifier (req_param req)"
  have "\<exists>evs. snd (userDetails_handler (db w) req [Connect])
        = [Connect] @ Query (userQuery ?lk) [queryParam ?lk]
             (db w (length (filter is_query [Connect])) (userQuery ?lk) [queryParam ?lk]) # evs"
    unfolding userDetails_handler_def Let_def
    by (rule bind_appends) (rule sound_appends, rule userDetails_rest_sound)
  then show ?thesis
    using assms
    by (cases "userDetails_handler (db w) req [Connect]")
       (auto simp add: handle_def with_client_def is_query_def)
qed

text \<open>
  C4: a path segment that coerces to a number (\<open>isNaN\<close> is false) is looked up by
  \<open>user_id\<close>, with \<open>parseInt\<close> of the segment as the parameter; any other segment is
  looked up by \<open>username\<close>, the parameter being the segment itself when it starts with
  \<open>@\<close> and the segment with one \<open>@\<close> put in front otherwise. That lookup is the first
  query of the handler, and when it returns no row the answer is the 404
  \<open>{error: "User not found"}\<close>, not a 500.
\<close>

theorem identifier_resolution:
  "(\<not> js_isNaN s \<longrightarrow>
      userQuery (resolve_identifier s) = userDetails_userQuery_by_id
      \<and> queryParam (resolve_identifier s) = JNumber (js_parseInt s))
   \<and> (js_isNaN s \<longrightarrow>
      userQuery (resolve_identifier s) = userDetails_userQuery_by_name
      \<and> (starts_with_at s \<longrightarrow> queryParam (resolve_identifier s) = JStr s)
      \<and> (\<not> starts_with_at s \<longrightarrow> queryParam (resolve_identifier s) = JStr (CHR ''@'' # s)))
   \<and> (connect_error w = None \<and> req_param req = s \<longrightarrow>
        (\<exists>rest. snd (handle UserDetails req w)
           = Connect
             # Query (userQuery (resolve_identifier s)) [queryParam (resolve_identifier s)]
                 (db w 0 (userQuery (resolve_identifier s)) [queryParam (resolve_identifier s)])
             # rest))
   \<and> (connect_error w = None \<and> req_param req = s
        \<and> db w 0 (userQuery (resolve_identifier s)) [queryParam (resolve_identifier s)] = Inr []
      \<longrightarrow> fst (handle UserDetails req w)
          = \<lparr>status = 404, body = Obj [(''error'', StrV ''User not found'')]\<rparr>)"
  using userDetails_first_query [of w req] userDetails_not_found [of w req]
  by (auto simp add: resolve_identifier_def not_found_def)

theorem identifier_resolution_witness:
  "\<not> js_isNaN ''123'' \<and> js_isNaN ''alice'' \<and> js_isNaN ''@alice''
   \<and> queryParam (resolve_identifier ''123'') = JNumber (Num 123)
   \<and> userQuery (resolve_identifier ''123'') = userDetails_userQuery_by_id
   \<and> queryParam (resolve_identifier ''alice'') = JStr ''@alice''
   \<and> queryParam (resolve_identifier ''@alice'') = JStr ''@alice''
   \<and> userQuery (resolve_identifier ''alice'') = userDetails_userQuery_by_name
   \<and> fst (handle UserDetails (request_for ''alice'') empty_world)
     = \<lparr>status = 404, body = Obj [(''error'', StrV ''User not found'')]\<rparr>"
proof -
  have a: "\<not> js_isNaN ''123''" "js_isNaN ''alice''" "js_isNaN ''@alice''"
    by (rule not_isNaN_123, rule isNaN_alice, rule isNaN_at_alice)
  have s: "\<not> starts_with_at ''alice''" "starts_with_at ''@alice''"
    by (simp_all add: starts_with_at_def)
  have e: "connect_error empty_world = None \<and> req_param (request_for ''alice'') = ''alice''
      \<and> db empty_world 0 (userQuery (resolve_identifier ''alice''))
          [queryParam (resolve_identifier ''alice'')] = Inr []"
    by (simp add: empty_world_def empty_database_def request_for_def)
  from identifier_resolution [of "''123''" empty_world "request_for ''alice''"] a(1)
  have 1: "userQuery (resolve_identifier ''123'') = userDetails_userQuery_by_id
      \<and> queryParam (resolve_identifier ''123'') = JNumber (js_parseInt ''123'')"
    by blast
  from identifier_resolution [of "''alice''" empty_world "request_for ''alice''"] a(2) s(1) e
  have 2: "userQuery (resolve_identifier ''alice'') = userDetails_userQuery_by_name
      \<and> queryParam (resolve_identifier ''alice'') = JStr (CHR ''@'' # ''alice'')
      \<and> fst (handle UserDetails (request_for ''alice'') empty_world)
        = \<lparr>status = 404, body = Obj [(''error'', StrV ''User not found'')]\<rparr>"
    by blast
  from identifier_resolution [of "''@alice''" empty_world "request_for ''alice''"] a(3) s(2)
  have 3: "queryParam (resolve_identifier ''@alice'') = JStr ''@alice''"
    by blast
  from a 1 2 3 show ?thesis by (simp add: parseInt_123)
qed

text \<open>
  C10: the numeric test is JavaScript's number coercion, not a test for integer
  literals. Every segment \<open>s\<close> for which \<open>isNaN(s)\<close> is false is sent to the \<open>user_id\<close>
  query with \<open>parseInt(s)\<close> as its parameter and never to the \<open>username\<close> query:
  \<open>"12.5"\<close> is looked up as user id 12, \<open>"1e2"\<close> as user id 1, and a blank segment with
  NaN.
\<close>

theorem numeric_identifier_by_coercion:
  "(\<not> js_isNaN s \<longrightarrow>
      resolve_identifier s
      = \<lparr>userQuery = userDetails_userQuery_by_id, queryParam = JNumber (js_parseInt s)\<rparr>)
   \<and> (\<not> js_isNaN s \<and> connect_error w = None \<and> req_param req = s \<longrightarrow>
        (\<exists>rest. snd (handle UserDetails req w)
           = Connect
             # Query userDetails_userQuery_by_id [JNumber (js_parseInt s)]
                 (db w 0 userDetails_userQuery_by_id [JNumber (js_parseInt s)])
             # rest))
   \<and> resolve_identifier ''12.5''
      = \<lparr>userQuery = userDetails_userQuery_by_id, queryParam = JNumber (Num 12)\<rparr>
   \<and> resolve_identifier ''1e2''
      = \<lparr>userQuery = userDetails_userQuery_by_id, queryParam = JNumber (Num 1)\<rparr>
   \<and> resolve_identifier '' ''
      = \<lparr>userQuery = userDetails_userQuery_by_id, queryParam = JNumber NaN\<rparr>"
  using userDetails_first_query [of w req]
  by (auto simp add: resolve_identifier_def not_isNaN_12_5 not_isNaN_1e2 not_isNaN_blank
      parseInt_12_5 parseInt_1e2 parseInt_blank)

theorem numeric_identifier_by_coercion_witness:
  "\<not> js_isNaN ''12.5''
   \<and> (\<exists>rest. snd (handle UserDetails (request_for ''12.5'') empty_world)
         = Connect # Query userDetails_userQuery_by_id [JNumber (Num 12)] (Inr []) # rest)"
proof -
  have a: "\<not> js_isNaN ''12.5'' \<and> connect_error empty_world = None
      \<and> req_param (request_for ''12.5'') = ''12.5''"
    by (simp add: not_isNaN_12_5 empty_world_def request_for_def)
  from numeric_identifier_by_coercion [of "''12.5''" empty_world "request_for ''12.5''"] a
  have "\<exists>rest. snd (handle UserDetails (request_for ''12.5'') empty_world)
         = Connect
           # Query userDetails_userQuery_by_id [JNumber (js_parseInt ''12.5'')]
               (db empty_world 0 userDetails_userQuery_by_id [JNumber (js_parseInt ''12.5'')])
           # rest"
    by blast
  with a show ?thesis
    by (simp add: parseInt_12_5 empty_world_def empty_database_def)
qed

section \<open>The pagination summary is right\<close>

lemma ceiling_times_ge:
  assumes "1 \<le> (l::int)"
  shows "n \<le> \<lceil>real_of_int n / real_of_int l\<rceil> * l"
proof -
  have "real_of_int n / real_of_int l \<le> real_of_int \<lceil>real_of_int n / real_of_int l\<rceil>"
    by (rule le_of_int_ceiling)
  moreover have "0 < real_of_int l" using assms by simp
  ultimately
  have "real_of_int n \<le> real_of_int \<lceil>real_of_int n / real_of_int l\<rceil> * real_of_int l"
    by (simp only: pos_divide_le_eq)
  then have "real_of_int n \<le> real_of_int (\<lceil>real_of_int n / real_of_int l\<rceil> * l)"
    by simp
  then show ?thesis by (simp only: of_int_le_iff)
qed

lemma beyond_last_empty:
  assumes "1 \<le> limit" "\<lceil>real_of_int n / real_of_int limit\<rceil> < page"
    "int (length matching) = n"
  shows "take (nat limit) (drop (nat ((page - 1) * limit)) matching) = []"
proof -
  have "\<lceil>real_of_int n / real_of_int limit\<rceil> \<le> page - 1" using assms(2) by simp
  then have "\<lceil>real_of_int n / real_of_int limit\<rceil> * limit \<le> (page - 1) * limit"
    using assms(1) by (simp add: mult_right_mono)
  with ceiling_times_ge [OF assms(1), of n] have "n \<le> (page - 1) * limit" by simp
  then show ?thesis using assms(3) by auto
qed

lemma summary_is_spec:
  "limit \<noteq> 0 \<Longrightarrow>
   pagination_json tk (pagination_of page limit (Num n)) = summary_spec tk page limit n"
  by (simp add: pagination_json_def pagination_of_def summary_spec_def ceil_div_def
      less_num_def Let_def)

text \<open>What the three filtered lists answer on the database of a list: the count query
  goes first, the page query second.\<close>

lemma paged_handler_on_list:
  assumes "pageParams q = ps @ [JNumber (Num limit), JNumber (Num off)]"
  shows "fst (paged_handler (list_database 1 count_row matching) q rk tk page limit [Connect])
         = (case limit_offset matching limit off of
              None \<Rightarrow> Inl (DbError ''LIMIT and OFFSET must not be negative'')
            | Some rows \<Rightarrow>
                Inr (ok (list_body rk tk rows
                  (pagination_of page limit (parseInt_val (field count_row ''total''))))))"
  using assms
  by (simp add: paged_handler_def bind_def both_def client_query_def list_database_def
      answer_page_def bound_int_def is_query_def read_def first_row_def ret_def Let_def
      split: option.split)

lemma paged_params:
  "pageParams (paged cq pq b l off) = queryParams b @ [JNumber (Num l), JNumber (Num off)]"
  by (simp add: paged_def Let_def)

lemma list_answer_accepted:
  assumes "1 \<le> limit" "1 \<le> page" "parseInt_val (field count_row ''total'') = Num n"
    and "res = (case limit_offset matching limit (offset_of page limit) of
              None \<Rightarrow> Inl (DbError ''LIMIT and OFFSET must not be negative'')
            | Some rows \<Rightarrow>
                Inr (ok (list_body rk tk rows
                  (pagination_of page limit (parseInt_val (field count_row ''total''))))))"
  shows "res = Inr (list_answer_spec rk tk matching page limit n)"
proof -
  have "0 \<le> (page - 1) * limit" using assms(1,2) by simp
  then have "limit_offset matching limit (offset_of page limit)
      = Some (take (nat limit) (drop (nat ((page - 1) * limit)) matching))"
    using assms(1) by (simp add: limit_offset_def offset_of_def)
  moreover have "limit \<noteq> 0" using assms(1) by simp
  ultimately show ?thesis
    using assms(3,4)
    by (simp add: list_answer_spec_def ok_def list_body_def summary_is_spec)
qed

lemma list_answer_rejected:
  assumes "page < 1 \<or> limit < 1" "page \<noteq> 0" "limit \<noteq> 0"
    and "res = (case limit_offset matching limit (offset_of page limit) of
              None \<Rightarrow> Inl (DbError ''LIMIT and OFFSET must not be negative'')
            | Some rows \<Rightarrow> g rows)"
  shows "res = Inl (DbError ''LIMIT and OFFSET must not be negative'')"
proof -
  have "limit < 0 \<or> (page - 1) * limit < 0"
  proof (cases "limit < 0")
    case True
    then show ?thesis by simp
  next
    case False
    then have l: "0 < limit" using assms(3) by simp
    then have "page < 0" using assms(1,2) by auto
    then have "page - 1 < 0" by simp
    then have "(page - 1) * limit < 0" using l by (simp add: mult_neg_pos)
    then show ?thesis by simp
  qed
  then have "limit_offset matching limit (offset_of page limit) = None"
    by (auto simp add: limit_offset_def offset_of_def)
  with assms(4) show ?thesis by simp
qed

lemma handle_on_list:
  "fst (handle e req (list_world k count_row matching))
   = (case fst (handler_of e (list_database k count_row matching) req [Connect]) of
        Inl error \<Rightarrow> handleError error (context_label e)
      | Inr res \<Rightarrow> res)"
  by (cases "handler_of e (list_database k count_row matching) req [Connect]")
     (simp add: handle_def with_client_def list_world_def)

lemma users_on_list:
  "fst (users_handler (list_database 1 count_row matching) req [Connect])
   = (case limit_offset matching (limit_of 20 (req_query req ''limit''))
             (offset_of (page_of (req_query req ''page''))
                (limit_of 20 (req_query req ''limit''))) of
        None \<Rightarrow> Inl (DbError ''LIMIT and OFFSET must not be negative'')
      | Some rows \<Rightarrow>
          Inr (ok (list_body ''users'' ''totalUsers'' rows
            (pagination_of (page_of (req_query req ''page''))
               (limit_of 20 (req_query req ''limit''))
               (parseInt_val (field count_row ''total''))))))"
  unfolding users_handler_def Let_def users_queries_def
  by (rule paged_handler_on_list) (rule paged_params)

lemma conversations_on_list:
  "fst (conversations_handler (list_database 1 count_row matching) req [Connect])
   = (case limit_offset matching (limit_of 20 (req_query req ''limit''))
             (offset_of (page_of (req_query req ''page''))
                (limit_of 20 (req_query req ''limit''))) of
        None \<Rightarrow> Inl (DbError ''LIMIT and OFFSET must not be negative'')
      | Some rows \<Rightarrow>
          Inr (ok (list_body ''conversations'' ''totalConversations'' rows
            (pagination_of (page_of (req_query req ''page''))
               (limit_of 20 (req_query req ''limit''))
               (parseInt_val (field count_row ''total''))))))"
  unfolding conversations_handler_def Let_def conversations_queries_def
  by (rule paged_handler_on_list) (rule paged_params)

lemma messages_on_list:
  "fst (messages_handler (list_database 1 count_row matching) req [Connect])
   = (case limit_offset matching (limit_of 50 (req_query req ''limit''))
             (offset_of (page_of (req_query req ''page''))
                (limit_of 50 (req_query req ''limit''))) of
        None \<Rightarrow> Inl (DbError ''LIMIT and OFFSET must not be negative'')
      | Some rows \<Rightarrow>
          Inr (ok (list_body ''messages'' ''totalMessages'' rows
            (pagination_of (page_of (req_query req ''page''))
               (limit_of 50 (req_query req ''limit''))
               (parseInt_val (field count_row ''total''))))))"
  unfolding messages_handler_def Let_def messages_queries_def
  by (rule paged_handler_on_list) (rule paged_params)

text \<open>The list of a user's conversations sends its page query first and its count
  query second.\<close>

lemma userConversations_on_list:
  "fst (userConversations_handler (list_database 0 count_row matching) req [Connect])
   = (case limit_offset matching (limit_of 20 (req_query req ''limit''))
             (offset_of (page_of (req_query req ''page''))
                (limit_of 20 (req_query req ''limit''))) of
        None \<Rightarrow> Inl (DbError ''LIMIT and OFFSET must not be negative'')
      | Some rows \<Rightarrow>
          Inr (ok (list_body ''conversations'' ''totalConversations'' rows
            (pagination_of (page_of (req_query req ''page''))
               (limit_of 20 (req_query req ''limit''))
               (parseInt_val (field count_row ''total''))))))"
  by (simp add: userConversations_handler_def bind_def both_def client_query_def
      list_database_def answer_page_def bound_int_def is_query_def read_def first_row_def
      ret_def Let_def split: option.split)

lemma accepted_answer:
  assumes "1 \<le> page" "1 \<le> limit" "parseInt_val (field count_row ''total'') = Num n"
    and "fst (handler_of e (list_database k count_row matching) req [Connect])
         = (case limit_offset matching limit (offset_of page limit) of
              None \<Rightarrow> Inl (DbError ''LIMIT and OFFSET must not be negative'')
            | Some rows \<Rightarrow>
                Inr (ok (list_body rk tk rows
                  (pagination_of page limit (parseInt_val (field count_row ''total''))))))"
  shows "fst (handle e req (list_world k count_row matching))
         = list_answer_spec rk tk matching page limit n"
  using list_answer_accepted [OF assms(2,1,3,4)]
  by (simp add: handle_on_list)

lemma rejected_answer:
  assumes "page < 1 \<or> limit < 1" "page \<noteq> 0" "limit \<noteq> 0"
    and "fst (handler_of e (list_database k count_row matching) req [Connect])
         = (case limit_offset matching limit (offset_of page limit) of
              None \<Rightarrow> Inl (DbError ''LIMIT and OFFSET must not be negative'')
            | Some rows \<Rightarrow> g rows)"
  shows "status (fst (handle e req (list_world k count_row matching))) = 500"
  using list_answer_rejected [OF assms]
  by (simp add: handle_on_list handleError_def)

text \<open>
  C2: take any request to one of the four list endpoints and a database that holds
  \<open>matching\<close> rows for it, answers the count query with a total that parses to \<open>n\<close>, and
  answers the page query from the limit and the offset the handler bound. When the
  effective page and page size are at least 1, the answer is the 200 of the
  specification: the rows after the first \<open>(page - 1) * limit\<close>, at most \<open>limit\<close> of
  them, and a summary with \<open>totalPages = ceil(n / limit)\<close>,
  \<open>hasNext = (page < totalPages)\<close> and \<open>hasPrev = (page > 1)\<close>. When \<open>n\<close> is the
  number of matching rows and the page is beyond the last, that answer has no row and
  \<open>hasNext = false\<close>; when \<open>n\<close> is 0, \<open>totalPages\<close> is 0. Otherwise the page or the
  page size is negative (neither is ever zero), the database rejects the page query and
  no summary is returned. The summary the handlers compute is the one of the
  specification for every page, every total and every page size other than zero.
\<close>

theorem pagination_summary_correct:
  assumes "page = page_of (req_query req ''page'')"
    and "l20 = limit_of 20 (req_query req ''limit'')"
    and "l50 = limit_of 50 (req_query req ''limit'')"
    and "parseInt_val (field count_row ''total'') = Num n"
  shows "(1 \<le> page \<and> 1 \<le> l20 \<longrightarrow>
            fst (handle Users req (list_world 1 count_row matching))
              = list_answer_spec ''users'' ''totalUsers'' matching page l20 n
          \<and> fst (handle Conversations req (list_world 1 count_row matching))
              = list_answer_spec ''conversations'' ''totalConversations'' matching page l20 n
          \<and> fst (handle UserConversations req (list_world 0 count_row matching))
              = list_answer_spec ''conversations'' ''totalConversations'' matching page l20 n)
     \<and> (1 \<le> page \<and> 1 \<le> l50 \<longrightarrow>
            fst (handle Messages req (list_world 1 count_row matching))
              = list_answer_spec ''messages'' ''totalMessages'' matching page l50 n)
     \<and> (page < 1 \<or> l20 < 1 \<longrightarrow>
            status (fst (handle Users req (list_world 1 count_row matching))) = 500
          \<and> status (fst (handle Conversations req (list_world 1 count_row matching))) = 500
          \<and> status (fst (handle UserConversations req (list_world 0 count_row matching))) = 500)
     \<and> (page < 1 \<or> l50 < 1 \<longrightarrow>
            status (fst (handle Messages req (list_world 1 count_row matching))) = 500)
     \<and> page \<noteq> 0 \<and> l20 \<noteq> 0 \<and> l50 \<noteq> 0
     \<and> (1 \<le> limit \<and> int (length matching) = n
          \<and> \<lceil>real_of_int n / real_of_int limit\<rceil> < page \<longrightarrow>
            list_answer_spec rk tk matching page limit n
            = \<lparr>status = 200,
               body = Obj [(rk, Rows []),
                           (''pagination'',
                            Obj [(''currentPage'', NumV (Num page)),
                                 (''totalPages'',
                                  NumV (Num \<lceil>real_of_int n / real_of_int limit\<rceil>)),
                                 (tk, NumV (Num n)),
                                 (''hasNext'', BoolV False),
                                 (''hasPrev'', BoolV (1 < page))])]\<rparr>)
     \<and> (n = 0 \<longrightarrow>
            summary_spec tk page limit n
            = Obj [(''currentPage'', NumV (Num page)),
                   (''totalPages'', NumV (Num 0)),
                   (tk, NumV (Num 0)),
                   (''hasNext'', BoolV (page < 0)),
                   (''hasPrev'', BoolV (1 < page))])
     \<and> (limit \<noteq> 0 \<longrightarrow>
            pagination_json tk (pagination_of page limit (Num n))
            = summary_spec tk page limit n)"
proof -
  have nz: "page \<noteq> 0" "l20 \<noteq> 0" "l50 \<noteq> 0"
    unfolding assms(1,2,3) by (simp_all add: page_of_nonzero limit_of_nonzero)
  have u: "fst (handler_of Users (list_database 1 count_row matching) req [Connect])
      = (case limit_offset matching l20 (offset_of page l20) of
           None \<Rightarrow> Inl (DbError ''LIMIT and OFFSET must not be negative'')
         | Some rows \<Rightarrow>
             Inr (ok (list_body ''users'' ''totalUsers'' rows
               (pagination_of page l20 (parseInt_val (field count_row ''total''))))))"
    unfolding assms(1,2) handler_of.simps by (rule users_on_list)
  have cv: "fst (handler_of Conversations (list_database 1 count_row matching) req [Connect])
      = (case limit_offset matching l20 (offset_of page l20) of
           None \<Rightarrow> Inl (DbError ''LIMIT and OFFSET must not be negative'')
         | Some rows \<Rightarrow>
             Inr (ok (list_body ''conversations'' ''totalConversations'' rows
               (pagination_of page l20 (parseInt_val (field count_row ''total''))))))"
    unfolding assms(1,2) handler_of.simps by (rule conversations_on_list)
  have uc: "fst (handler_of UserConversations (list_database 0 count_row matching) req
                  [Connect])
      = (case limit_offset matching l20 (offset_of page l20) of
           None \<Rightarrow> Inl (DbError ''LIMIT and OFFSET must not be negative'')
         | Some rows \<Rightarrow>
             Inr (ok (list_body ''conversations'' ''totalConversations'' rows
               (pagination_of page l20 (parseInt_val (field count_row ''total''))))))"
    unfolding assms(1,2) handler_of.simps by (rule userConversations_on_list)
  have ms: "fst (handler_of Messages (list_database 1 count_row matching) req [Connect])
      = (case limit_offset matching l50 (offset_of page l50) of
           None \<Rightarrow> Inl (DbError ''LIMIT and OFFSET must not be negative'')
         | Some rows \<Rightarrow>
             Inr (ok (list_body ''messages'' ''totalMessages'' rows
               (pagination_of page l50 (parseInt_val (field count_row ''total''))))))"
    unfolding assms(1,3) handler_of.simps by (rule messages_on_list)
  have a: "1 \<le> page \<and> 1 \<le> l20 \<longrightarrow>
            fst (handle Users req (list_world 1 count_row matching))
              = list_answer_spec ''users'' ''totalUsers'' matching page l20 n
          \<and> fst (handle Conversations req (list_world 1 count_row matching))
              = list_answer_spec ''conversations'' ''totalConversations'' matching page l20 n
          \<and> fst (handle UserConversations req (list_world 0 count_row matching))
              = list_answer_spec ''conversations'' ''totalConversations'' matching page l20 n"
  proof (intro impI conjI)
    assume h: "1 \<le> page \<and> 1 \<le> l20"
    then have p: "1 \<le> page" and l: "1 \<le> l20" by simp_all
    show "fst (handle Users req (list_world 1 count_row matching))
              = list_answer_spec ''users'' ''totalUsers'' matching page l20 n"
      by (rule accepted_answer [OF p l assms(4) u])
    show "fst (handle Conversations req (list_world 1 count_row matching))
              = list_answer_spec ''conversations'' ''totalConversations'' matching page l20 n"
      by (rule accepted_answer [OF p l assms(4) cv])
    show "fst (handle UserConversations req (list_world 0 count_row matching))
              = list_answer_spec ''conversations'' ''totalConversations'' matching page l20 n"
      by (rule accepted_answer [OF p l assms(4) uc])
  qed
  have b: "1 \<le> page \<and> 1 \<le> l50 \<longrightarrow>
            fst (handle Messages req (list_world 1 count_row matching))
              = list_answer_spec ''messages'' ''totalMessages'' matching page l50 n"
  proof
    assume h: "1 \<le> page \<and> 1 \<le> l50"
    then have p: "1 \<le> page" and l: "1 \<le> l50" by simp_all
    show "fst (handle Messages req (list_world 1 count_row matching))
              = list_answer_spec ''messages'' ''totalMessages'' matching page l50 n"
      by (rule accepted_answer [OF p l assms(4) ms])
  qed
  have c: "page < 1 \<or> l20 < 1 \<longrightarrow>
            status (fst (handle Users req (list_world 1 count_row matching))) = 500
          \<and> status (fst (handle Conversations req (list_world 1 count_row matching))) = 500
          \<and> status (fst (handle UserConversations req (list_world 0 count_row matching))) = 500"
  proof (intro impI conjI)
    assume h: "page < 1 \<or> l20 < 1"
    show "status (fst (handle Users req (list_world 1 count_row matching))) = 500"
      by (rule rejected_answer [OF h nz(1) nz(2) u])
    show "status (fst (handle Conversations req (list_world 1 count_row matching))) = 500"
      by (rule rejected_answer [OF h nz(1) nz(2) cv])
    show "status (fst (handle UserConversations req (list_world 0 count_row matching))) = 500"
      by (rule rejected_answer [OF h nz(1) nz(2) uc])
  qed
  have d: "page < 1 \<or> l50 < 1 \<longrightarrow>
            status (fst (handle Messages req (list_world 1 count_row matching))) = 500"
  proof
    assume h: "page < 1 \<or> l50 < 1"
    show "status (fst (handle Messages req (list_world 1 count_row matching))) = 500"
      by (rule rejected_answer [OF h nz(1) nz(3) ms])
  qed
  have e: "1 \<le> limit \<and> int (length matching) = n
          \<and> \<lceil>real_of_int n / real_of_int limit\<rceil> < page \<longrightarrow>
            list_answer_spec rk tk matching page limit n
            = \<lparr>status = 200,
               body = Obj [(rk, Rows []),
                           (''pagination'',
                            Obj [(''currentPage'', NumV (Num page)),
                                 (''totalPages'',
                                  NumV (Num \<lceil>real_of_int n / real_of_int limit\<rceil>)),
                                 (tk, NumV (Num n)),
                                 (''hasNext'', BoolV False),
                                 (''hasPrev'', BoolV (1 < page))])]\<rparr>"
  proof
    assume h: "1 \<le> limit \<and> int (length matching) = n
          \<and> \<lceil>real_of_int n / real_of_int limit\<rceil> < page"
    then have "take (nat limit) (drop (nat ((page - 1) * limit)) matching) = []"
      by (intro beyond_last_empty) simp_all
    moreover have "\<not> page < \<lceil>real_of_int n / real_of_int limit\<rceil>" using h by simp
    ultimately show "list_answer_spec rk tk matching page limit n
            = \<lparr>status = 200,
               body = Obj [(rk, Rows []),
                           (''pagination'',
                            Obj [(''currentPage'', NumV (Num page)),
                                 (''totalPages'',
                                  NumV (Num \<lceil>real_of_int n / real_of_int limit\<rceil>)),
                                 (tk, NumV (Num n)),
                                 (''hasNext'', BoolV False),
                                 (''hasPrev'', BoolV (1 < page))])]\<rparr>"
      by (simp add: list_answer_spec_def summary_spec_def)
  qed
  have z: "n = 0 \<longrightarrow>
            summary_spec tk page limit n
            = Obj [(''currentPage'', NumV (Num page)),
                   (''totalPages'', NumV (Num 0)),
                   (tk, NumV (Num 0)),
                   (''hasNext'', BoolV (page < 0)),
                   (''hasPrev'', BoolV (1 < page))]"
    by (simp add: summary_spec_def)
  have f: "limit \<noteq> 0 \<longrightarrow>
            pagination_json tk (pagination_of page limit (Num n))
            = summary_spec tk page limit n"
    by (simp add: summary_is_spec)
  show ?thesis
    by (intro conjI) (rule a b c d nz e z f)+
qed

lemma parseInt_2: "js_parseInt ''2'' = Num 2"
  by (simp add: js_parseInt_def is_ws_def has_hex_prefix_def is_digit_in_def digit_of_def
      value_in_def)

lemma parseInt_4: "js_parseInt ''4'' = Num 4"
  by (simp add: js_parseInt_def is_ws_def has_hex_prefix_def is_digit_in_def digit_of_def
      value_in_def)

lemma parseInt_10: "js_parseInt ''10'' = Num 10"
  by (simp add: js_parseInt_def is_ws_def has_hex_prefix_def is_digit_in_def digit_of_def
      value_in_def)

lemma parseInt_25: "js_parseInt ''25'' = Num 25"
  by (simp add: js_parseInt_def is_ws_def has_hex_prefix_def is_digit_in_def digit_of_def
      value_in_def)

lemma count_25_parses: "parseInt_val (field count_25 ''total'') = Num 25"
  by (simp add: count_25_def field_def parseInt_val_def parseInt_25)

theorem pagination_summary_correct_witness:
  "fst (handle Users (list_request ''2'' ''10'' ''female'') (list_world 1 count_25 rows_25))
     = \<lparr>status = 200,
        body = Obj [(''users'', Rows (replicate 10 [(''gender'', JStr ''female'')])),
                    (''pagination'',
                     Obj [(''currentPage'', NumV (Num 2)),
                          (''totalPages'', NumV (Num 3)),
                          (''totalUsers'', NumV (Num 25)),
                          (''hasNext'', BoolV True),
                          (''hasPrev'', BoolV True)])]\<rparr>
   \<and> fst (handle Users (list_request ''4'' ''10'' ''female'') (list_world 1 count_25 rows_25))
     = \<lparr>status = 200,
        body = Obj [(''users'', Rows []),
                    (''pagination'',
                     Obj [(''currentPage'', NumV (Num 4)),
                          (''totalPages'', NumV (Num 3)),
                          (''totalUsers'', NumV (Num 25)),
                          (''hasNext'', BoolV False),
                          (''hasPrev'', BoolV True)])]\<rparr>
   \<and> status (fst (handle Users (list_request ''2'' ''-5'' ''female'')
                (list_world 1 count_25 rows_25))) = 500"
proof -
  have p2: "2 = page_of (req_query (list_request ''2'' ''10'' ''female'') ''page'')"
    and p4: "4 = page_of (req_query (list_request ''4'' ''10'' ''female'') ''page'')"
    and pn: "2 = page_of (req_query (list_request ''2'' ''-5'' ''female'') ''page'')"
    by (simp_all add: list_request_def page_of_def parseInt_query_def num_or_def
        parseInt_2 parseInt_4)
  have l2: "10 = limit_of 20 (req_query (list_request ''2'' ''10'' ''female'') ''limit'')"
    and m2: "10 = limit_of 50 (req_query (list_request ''2'' ''10'' ''female'') ''limit'')"
    and l4: "10 = limit_of 20 (req_query (list_request ''4'' ''10'' ''female'') ''limit'')"
    and m4: "10 = limit_of 50 (req_query (list_request ''4'' ''10'' ''female'') ''limit'')"
    and ln: "- 5 = limit_of 20 (req_query (list_request ''2'' ''-5'' ''female'') ''limit'')"
    and mn: "- 5 = limit_of 50 (req_query (list_request ''2'' ''-5'' ''female'') ''limit'')"
    by (simp_all add: list_request_def limit_of_def parseInt_query_def num_or_def
        parseInt_10 parseInt_minus5)
  note w2 = pagination_summary_correct
    [OF p2 l2 m2 count_25_parses,
     where matching = rows_25 and limit = 10 and rk = "''users''" and tk = "''totalUsers''"]
  note w4 = pagination_summary_correct
    [OF p4 l4 m4 count_25_parses,
     where matching = rows_25 and limit = 10 and rk = "''users''" and tk = "''totalUsers''"]
  note wn = pagination_summary_correct
    [OF pn ln mn count_25_parses,
     where matching = rows_25 and limit = 10 and rk = "''users''" and tk = "''totalUsers''"]
  have r: "take (nat 10) (drop (nat ((2 - 1) * 10)) rows_25)
      = replicate 10 [(''gender'', JStr ''female'')]"
    by (simp add: rows_25_def)
  have 1: "fst (handle Users (list_request ''2'' ''10'' ''female'')
                  (list_world 1 count_25 rows_25))
      = list_answer_spec ''users'' ''totalUsers'' rows_25 2 10 25"
    using w2 [THEN conjunct1] by simp
  have 2: "fst (handle Users (list_request ''4'' ''10'' ''female'')
                  (list_world 1 count_25 rows_25))
      = list_answer_spec ''users'' ''totalUsers'' rows_25 4 10 25"
    using w4 [THEN conjunct1] by simp
  have b: "(1::int) \<le> 10 \<and> int (length rows_25) = 25
      \<and> \<lceil>real_of_int 25 / real_of_int 10\<rceil> < (4::int)"
    by (simp add: rows_25_def)
  have 3: "list_answer_spec ''users'' ''totalUsers'' rows_25 4 10 25
      = \<lparr>status = 200,
         body = Obj [(''users'', Rows []),
                     (''pagination'',
                      Obj [(''currentPage'', NumV (Num 4)),
                           (''totalPages'', NumV (Num \<lceil>real_of_int 25 / real_of_int 10\<rceil>)),
                           (''totalUsers'', NumV (Num 25)),
                           (''hasNext'', BoolV False),
                           (''hasPrev'', BoolV (1 < (4::int)))])]\<rparr>"
    using w4 [THEN conjunct2, THEN conjunct2, THEN conjunct2, THEN conjunct2, THEN conjunct2,
        THEN conjunct2, THEN conjunct2, THEN conjunct1] b
    by blast
  have 4: "status (fst (handle Users (list_request ''2'' ''-5'' ''female'')
                (list_world 1 count_25 rows_25))) = 500"
    using wn [THEN conjunct2, THEN conjunct2, THEN conjunct1] by simp
  have 5: "list_answer_spec ''users'' ''totalUsers'' rows_25 2 10 25
      = \<lparr>status = 200,
        body = Obj [(''users'', Rows (replicate 10 [(''gender'', JStr ''female'')])),
                    (''pagination'',
                     Obj [(''currentPage'', NumV (Num 2)),
                          (''totalPages'', NumV (Num 3)),
                          (''totalUsers'', NumV (Num 25)),
                          (''hasNext'', BoolV True),
                          (''hasPrev'', BoolV True)])]\<rparr>"
    using r by (simp add: list_answer_spec_def summary_spec_def)
  show ?thesis
    unfolding 1 2 using 3 4 5 by simp
qed

section \<open>The recent-activity merge returns the most recent items\<close>

lemma insert_by_insort:
  "dated x \<Longrightarrow> list_all dated ys \<Longrightarrow>
   insert_by compare_timestamps x ys = insort_key (\<lambda>r. - ts r) x ys"
  by (induction ys) (auto simp add: compare_timestamps_def ts_def dated_def)

lemma js_sort_sort_key:
  "list_all dated xs \<Longrightarrow> js_sort compare_timestamps xs = sort_key (\<lambda>r. - ts r) xs"
proof (induction xs)
  case Nil
  then show ?case by (simp add: js_sort_def)
next
  case (Cons x xs)
  then have ih: "js_sort compare_timestamps xs = sort_key (\<lambda>r. - ts r) xs" by simp
  have d: "list_all dated (sort_key (\<lambda>r. - ts r) xs)"
    using Cons.prems by (simp add: list_all_iff)
  have "js_sort compare_timestamps (x # xs)
        = insert_by compare_timestamps x (js_sort compare_timestamps xs)"
    by (simp add: js_sort_def)
  also have "\<dots> = insort_key (\<lambda>r. - ts r) x (sort_key (\<lambda>r. - ts r) xs)"
    using Cons.prems d by (simp add: ih insert_by_insort)
  finally show ?case by (simp add: sort_key_def)
qed

lemma sorted_rev_uminus: "sorted (rev (xs :: int list)) = sorted (map uminus xs)"
  by (simp add: sorted_wrt_rev sorted_map)

lemma descending_unique:
  assumes "sorted (map uminus (ys :: int list))" "mset ys = mset xs"
  shows "ys = rev (sort xs)"
proof -
  have "sorted (rev ys)" using assms(1) by (simp add: sorted_rev_uminus)
  moreover have "mset (rev ys) = mset xs" using assms(2) by simp
  ultimately have "sort xs = rev ys" by (rule properties_for_sort [rotated])
  then show ?thesis by simp
qed

lemma ts_sort_key: "map ts (sort_key (\<lambda>r. - ts r) xs) = rev (sort (map ts xs))"
proof (rule descending_unique)
  have "sorted (map (\<lambda>r. - ts r) (sort_key (\<lambda>r. - ts r) xs))" by (rule sorted_sort_key)
  then show "sorted (map uminus (map ts (sort_key (\<lambda>r. - ts r) xs)))"
    by (simp add: comp_def)
  have "mset (sort_key (\<lambda>r. - ts r) xs) = mset xs" by simp
  then show "mset (map ts (sort_key (\<lambda>r. - ts r) xs)) = mset (map ts xs)"
    by (metis mset_map)
qed

lemma descending_take_drop:
  assumes "sorted (map (\<lambda>r. - ts r) xs)" "x \<in> set (take k xs)" "y \<in> set (drop k xs)"
  shows "ts y \<le> ts x"
proof -
  have "sorted_wrt (\<lambda>a b. ts b \<le> ts a) (take k xs @ drop k xs)"
    using assms(1) by (simp add: sorted_map)
  then show ?thesis using assms(2,3) unfolding sorted_wrt_append by blast
qed

lemma activity_answer:
  assumes "connect_error w = None"
    and "db w 0 activity_recentConversationsQuery
           [JNumber (Num (limit_of 20 (req_query req ''limit'')))] = Inr conversations"
    and "db w 1 activity_recentMessagesQuery
           [JNumber (Num (limit_of 20 (req_query req ''limit'')))] = Inr messages"
  shows "fst (handle ActivityRecent req w)
         = ok (Obj [(''activity'',
                     Rows (activity_merge conversations messages
                             (limit_of 20 (req_query req ''limit''))))])"
  using assms
  by (simp add: handle_def with_client_def activity_handler_def Let_def bind_def both_def
      client_query_def is_query_def ret_def)

text \<open>
  C6: given the rows of the two queries, each with a valid timestamp, and a limit
  \<open>N\<close> that is not negative, the merge returns the \<open>N\<close> most recent items of the two
  sets together, most recent first: its timestamps are the first \<open>N\<close> of all the
  timestamps in descending order, its items are items of the two sets, there are \<open>N\<close>
  of them or all when there are fewer, and no item left out is more recent than an item
  returned. The handler answers with exactly this list. Conversations at \<open>[3, 2, 1]\<close>
  and messages at \<open>[4, 0, -1]\<close> with limit 4 give \<open>[4, 3, 2, 1]\<close>.
\<close>

theorem activity_merge_most_recent:
  assumes "list_all dated conversations" "list_all dated messages" "0 \<le> limit"
  shows "map ts (activity_merge conversations messages limit)
           = take (nat limit) (rev (sort (map ts (conversations @ messages))))
     \<and> mset (activity_merge conversations messages limit) \<subseteq># mset (conversations @ messages)
     \<and> length (activity_merge conversations messages limit)
         = min (nat limit) (length conversations + length messages)
     \<and> (\<forall>x \<in> set (activity_merge conversations messages limit).
          \<forall>y \<in># mset (conversations @ messages)
                 - mset (activity_merge conversations messages limit). ts y \<le> ts x)
     \<and> (connect_error w = None
          \<and> limit_of 20 (req_query req ''limit'') = limit
          \<and> db w 0 activity_recentConversationsQuery [JNumber (Num limit)] = Inr conversations
          \<and> db w 1 activity_recentMessagesQuery [JNumber (Num limit)] = Inr messages
        \<longrightarrow> fst (handle ActivityRecent req w)
            = ok (Obj [(''activity'', Rows (activity_merge conversations messages limit))]))"
proof -
  let ?all = "conversations @ messages"
  let ?S = "sort_key (\<lambda>r. - ts r) ?all"
  have d: "list_all dated ?all" using assms(1,2) by simp
  have am: "activity_merge conversations messages limit = take (nat limit) ?S"
    using assms(3) js_sort_sort_key [OF d] by (simp add: activity_merge_def slice_0_def)
  have "map ts (take (nat limit) ?S) = take (nat limit) (map ts ?S)"
    by (rule take_map [symmetric])
  also have "map ts ?S = rev (sort (map ts ?all))"
    by (rule ts_sort_key)
  finally have 1: "map ts (take (nat limit) ?S) = take (nat limit) (rev (sort (map ts ?all)))" .
  have ms: "mset ?S = mset ?all" by simp
  have split: "mset (take (nat limit) ?S) + mset (drop (nat limit) ?S) = mset ?all"
    using ms by (metis append_take_drop_id mset_append)
  have 2: "mset (take (nat limit) ?S) \<subseteq># mset ?all"
    using split by (metis mset_subset_eq_add_left)
  have 3: "length (take (nat limit) ?S) = min (nat limit) (length conversations + length messages)"
    by simp
  have rest: "mset ?all - mset (take (nat limit) ?S) = mset (drop (nat limit) ?S)"
    using split by (metis add_diff_cancel_left')
  have 4: "\<forall>x \<in> set (take (nat limit) ?S). \<forall>y \<in># mset ?all - mset (take (nat limit) ?S).
             ts y \<le> ts x"
    unfolding rest
    using descending_take_drop [OF sorted_sort_key [of "\<lambda>r. - ts r" ?all]]
    by auto
  have 5: "connect_error w = None
          \<and> limit_of 20 (req_query req ''limit'') = limit
          \<and> db w 0 activity_recentConversationsQuery [JNumber (Num limit)] = Inr conversations
          \<and> db w 1 activity_recentMessagesQuery [JNumber (Num limit)] = Inr messages
        \<longrightarrow> fst (handle ActivityRecent req w)
            = ok (Obj [(''activity'', Rows (take (nat limit) ?S))])"
    using activity_answer [of w req conversations messages] am by auto
  show ?thesis unfolding am using 1 2 3 4 5 by blast
qed

theorem activity_merge_most_recent_witness:
  "list_all dated [stamped 3, stamped 2, stamped 1]
   \<and> list_all dated [stamped 4, stamped 0, stamped (- 1)]
   \<and> (0::int) \<le> 4
   \<and> activity_merge [stamped 3, stamped 2, stamped 1] [stamped 4, stamped 0, stamped (- 1)] 4
     = [stamped 4, stamped 3, stamped 2, stamped 1]
   \<and> map ts (activity_merge [stamped 3, stamped 2, stamped 1]
               [stamped 4, stamped 0, stamped (- 1)] 4) = [4, 3, 2, 1]"
proof -
  have d1: "list_all dated [stamped 3, stamped 2, stamped 1]"
    and d2: "list_all dated [stamped 4, stamped 0, stamped (- 1)]"
    by (simp_all add: dated_def stamped_def field_def time_value_def)
  have l: "(0::int) \<le> 4" by simp
  have t: "\<And>k. ts (stamped k) = k"
    by (simp add: ts_def stamped_def field_def time_value_def)
  from activity_merge_most_recent [OF d1 d2 l, of empty_world "request_for []"]
  have "map ts (activity_merge [stamped 3, stamped 2, stamped 1]
               [stamped 4, stamped 0, stamped (- 1)] 4)
        = take (nat 4) (rev (sort (map ts ([stamped 3, stamped 2, stamped 1]
                                            @ [stamped 4, stamped 0, stamped (- 1)]))))"
    by (rule conjunct1)
  then have m: "map ts (activity_merge [stamped 3, stamped 2, stamped 1]
               [stamped 4, stamped 0, stamped (- 1)] 4) = [4, 3, 2, 1]"
    by (simp add: t sort_key_def)
  have a: "activity_merge [stamped 3, stamped 2, stamped 1]
             [stamped 4, stamped 0, stamped (- 1)] 4
           = [stamped 4, stamped 3, stamped 2, stamped 1]"
    by (simp add: activity_merge_def js_sort_def slice_0_def compare_timestamps_def
        stamped_def field_def time_value_def)
  from d1 d2 l a m show ?thesis by simp
qed

end
